theory Spec2Isabelle
  imports Complex_Main "HOL-Library.Multiset"
begin

section \<open>Vectors and matrices over the reals\<close>

text \<open>
  Tensors are modelled over the real numbers: a vector is a list of reals, a matrix is the
  list of its rows. Floating-point rounding is not modelled; "within tolerance" of the
  specification becomes exact equality over the reals.
\<close>

type_synonym vec = "real list"
type_synonym matrix = "real list list"

definition dot :: "vec \<Rightarrow> vec \<Rightarrow> real" where
  "dot u v = sum_list (map2 (*) u v)"

definition l2_norm :: "vec \<Rightarrow> real" where
  "l2_norm v = sqrt (sum_list (map (\<lambda>x. x * x) v))"

text \<open>
  The overflow of a norm is modelled. torch computes the L2 norm of a vector as the square
  root of the sum of its squares, in the precision of the tensor, and the tensors of the
  dictionaries are single precision: a sum of squares that reaches the overflow threshold
  \<open>2^128 - 2^103\<close> of that format is \<open>inf\<close>, and so is the norm (the row
  \<open>[3e20, 4e20]\<close> has norm \<open>inf\<close>, not \<open>5e20\<close>). Clamping \<open>inf\<close> from below leaves
  \<open>inf\<close>, and a finite entry divided by \<open>inf\<close> is 0.
\<close>

definition float32_overflow :: real where
  "float32_overflow = 2 ^ 128 - 2 ^ 103"

datatype norm_val = Norm real | InfNorm

definition torch_l2_norm :: "vec \<Rightarrow> norm_val" where
  "torch_l2_norm v =
     (if sum_list (map (\<lambda>x. x * x) v) < float32_overflow then Norm (l2_norm v) else InfNorm)"

definition clamp_min :: "real \<Rightarrow> norm_val \<Rightarrow> norm_val" where
  "clamp_min lo nv = (case nv of Norm n \<Rightarrow> Norm (max lo n) | InfNorm \<Rightarrow> InfNorm)"

definition div_norm :: "real \<Rightarrow> norm_val \<Rightarrow> real" where
  "div_norm x nv = (case nv of Norm n \<Rightarrow> x / n | InfNorm \<Rightarrow> 0)"

section \<open>autoencoders/learned\_dict.py: tensors in a store\<close>

text \<open>
  The fields of \<open>UntiedSAE\<close> and \<open>TiedSAE\<close> are references to tensors. The store is the
  list of all tensors allocated so far; an address is an index into it. Every torch
  operation used by \<open>get_learned_dict\<close> and \<open>encode\<close> is out of place: it reads its
  operands and allocates its result.
\<close>

datatype tensor = Vec vec | Mat matrix | Norms "norm_val list"

type_synonym addr = nat
type_synonym store = "tensor list"

definition alloc :: "store \<Rightarrow> tensor \<Rightarrow> addr \<times> store" where
  "alloc h t = (length h, h @ [t])"

definition load :: "store \<Rightarrow> addr \<Rightarrow> tensor option" where
  "load h a = (if a < length h then Some (h ! a) else None)"

text \<open>\<open>torch.norm(t, 2, dim=-1)\<close> of a matrix: the vector of the L2 norms of its rows.\<close>

definition torch_norm :: "store \<Rightarrow> addr \<Rightarrow> (addr \<times> store) option" where
  "torch_norm h a =
     (case load h a of
        Some (Mat m) \<Rightarrow> Some (alloc h (Norms (map torch_l2_norm m)))
      | _ \<Rightarrow> None)"

text \<open>
  \<open>torch.clamp(t, lo)\<close> of a vector of norms: every entry below \<open>lo\<close> is replaced by \<open>lo\<close>.
\<close>

definition torch_clamp :: "store \<Rightarrow> addr \<Rightarrow> real \<Rightarrow> (addr \<times> store) option" where
  "torch_clamp h a lo =
     (case load h a of
        Some (Norms v) \<Rightarrow> Some (alloc h (Norms (map (clamp_min lo) v)))
      | _ \<Rightarrow> None)"

text \<open>
  \<open>m / d[:, None]\<close>: row \<open>i\<close> of the matrix is divided by entry \<open>i\<close> of the vector. A zero
  divisor (which in floating point yields \<open>inf\<close> or \<open>nan\<close>) and a length mismatch are
  failures of the model.
\<close>

definition div_rows :: "store \<Rightarrow> addr \<Rightarrow> addr \<Rightarrow> (addr \<times> store) option" where
  "div_rows h a d =
     (case (load h a, load h d) of
        (Some (Mat m), Some (Norms v)) \<Rightarrow>
          (if length m = length v \<and> Norm 0 \<notin> set v
           then Some (alloc h (Mat (map2 (\<lambda>row n. map (\<lambda>x. div_norm x n) row) m v)))
           else None)
      | _ \<Rightarrow> None)"

record UntiedSAE =
  encoder :: addr
  decoder :: addr
  encoder_bias :: addr

record TiedSAE =
  t_encoder :: addr
  t_encoder_bias :: addr
  norm_encoder :: bool

text \<open>
  \<open>UntiedSAE.get_learned_dict\<close>. The result is the address of the returned tensor, the
  object after the call and the store after the call.
\<close>

definition untied_get_learned_dict ::
  "UntiedSAE \<Rightarrow> store \<Rightarrow> (addr \<times> UntiedSAE \<times> store) option" where
  "untied_get_learned_dict self h =
     (case torch_norm h (decoder self) of
        None \<Rightarrow> None
      | Some (norms, h1) \<Rightarrow>
         (case torch_clamp h1 norms (1 / 10 ^ 8) of
            None \<Rightarrow> None
          | Some (clamped, h2) \<Rightarrow>
             (case div_rows h2 (decoder self) clamped of
                None \<Rightarrow> None
              | Some (r, h3) \<Rightarrow> Some (r, self, h3))))"

text \<open>\<open>TiedSAE.get_learned_dict\<close>: the same computation on the shared encoder weight.\<close>

definition tied_get_learned_dict ::
  "TiedSAE \<Rightarrow> store \<Rightarrow> (addr \<times> TiedSAE \<times> store) option" where
  "tied_get_learned_dict self h =
     (case torch_norm h (t_encoder self) of
        None \<Rightarrow> None
      | Some (norms, h1) \<Rightarrow>
         (case torch_clamp h1 norms (1 / 10 ^ 8) of
            None \<Rightarrow> None
          | Some (clamped, h2) \<Rightarrow>
             (case div_rows h2 (t_encoder self) clamped of
                None \<Rightarrow> None
              | Some (r, h3) \<Rightarrow> Some (r, self, h3))))"

text \<open>
  The weight that \<open>TiedSAE.encode\<close> multiplies the batch with: the renormalized encoder
  in \<open>norm_encoder\<close> mode, the stored encoder otherwise.
\<close>

definition tied_encode_weight ::
  "TiedSAE \<Rightarrow> store \<Rightarrow> (addr \<times> TiedSAE \<times> store) option" where
  "tied_encode_weight self h =
     (if norm_encoder self then
        (case torch_norm h (t_encoder self) of
           None \<Rightarrow> None
         | Some (norms, h1) \<Rightarrow>
            (case torch_clamp h1 norms (1 / 10 ^ 8) of
               None \<Rightarrow> None
             | Some (clamped, h2) \<Rightarrow>
                (case div_rows h2 (t_encoder self) clamped of
                   None \<Rightarrow> None
                 | Some (r, h3) \<Rightarrow> Some (r, self, h3))))
      else (case load h (t_encoder self) of
              Some (Mat m) \<Rightarrow> Some (t_encoder self, self, h)
            | _ \<Rightarrow> None))"

text \<open>The value of the rows of the dictionary that the three functions compute.\<close>

definition renorm_row :: "vec \<Rightarrow> vec" where
  "renorm_row row = map (\<lambda>x. div_norm x (clamp_min (1 / 10 ^ 8) (torch_l2_norm row))) row"

section \<open>run.py: errors and numpy scalars\<close>

text \<open>
  The exceptions that the modelled parts of \<open>run.py\<close> raise, and the value of a numpy
  reduction, which is \<open>nan\<close> for the mean of an empty array.
\<close>

datatype error =
    ValueError string
  | IndexError
  | ZeroDivisionError
  | RuntimeError
  | NonFinite

datatype np_float = Finite real | NaN

definition np_mean :: "real list \<Rightarrow> np_float" where
  "np_mean xs = (if xs = [] then NaN else Finite (sum_list xs / real (length xs)))"

text \<open>The maximum of a non-empty array; the callers check for the empty one.\<close>

definition np_max :: "real list \<Rightarrow> real" where
  "np_max xs = fold max (tl xs) (hd xs)"

definition count_nonzero :: "vec \<Rightarrow> nat" where
  "count_nonzero row = length (filter (\<lambda>x. x \<noteq> 0) row)"

text \<open>\<open>a @ b\<close> for a matrix \<open>a\<close> and a matrix \<open>b\<close> given by its rows.\<close>

definition matmul :: "matrix \<Rightarrow> matrix \<Rightarrow> matrix" where
  "matmul a b = map (\<lambda>row. map (dot row) (transpose b)) a"

section \<open>run.py: synthetic dataset generation\<close>

text \<open>
  The random draws are inputs of the model. \<open>torch.rand(rows, cols)\<close> is the matrix of
  the draws \<open>draw i j\<close>, each in \<open>[0, 1)\<close>; \<open>torch.randint(0, n, (k,))\<close> is the list of
  the draws \<open>pick 0, ..., pick (k - 1)\<close>, each below \<open>n\<close>.
\<close>

definition torch_rand :: "(nat \<Rightarrow> nat \<Rightarrow> real) \<Rightarrow> nat \<Rightarrow> nat \<Rightarrow> matrix" where
  "torch_rand draw rows cols = map (\<lambda>i. map (\<lambda>j. draw i j) [0..<cols]) [0..<rows]"

text \<open>
  \<open>torch.where(dataset_thresh <= probs, dataset_values, data_zero)\<close>, the vector \<open>probs\<close>
  broadcast over the rows.
\<close>

definition where_le :: "matrix \<Rightarrow> vec \<Rightarrow> matrix \<Rightarrow> matrix" where
  "where_le dataset_thresh probs dataset_values =
     map2 (\<lambda>trow vrow. map2 (\<lambda>(t, p) v. if t \<le> p then v else 0) (zip trow probs) vrow)
       dataset_thresh dataset_values"

text \<open>\<open>(dataset_codes * feature_strengths) @ feats\<close>.\<close>

definition weighted_sum :: "matrix \<Rightarrow> matrix \<Rightarrow> matrix \<Rightarrow> matrix" where
  "weighted_sum dataset_codes feature_strengths feats =
     matmul (map2 (\<lambda>crow srow. map2 (*) crow srow) dataset_codes feature_strengths) feats"

text \<open>
  \<open>generate_rand_dataset\<close>. The three draws are \<open>dataset_thresh\<close>, \<open>dataset_values\<close> and
  \<open>feature_strengths\<close>, in the order of the source. A vector of probabilities or a
  feature matrix whose length is not the number of components cannot be broadcast or
  multiplied.
\<close>

definition generate_rand_dataset ::
  "nat \<Rightarrow> nat \<Rightarrow> vec \<Rightarrow> matrix
     \<Rightarrow> (nat \<Rightarrow> nat \<Rightarrow> real) \<Rightarrow> (nat \<Rightarrow> nat \<Rightarrow> real) \<Rightarrow> (nat \<Rightarrow> nat \<Rightarrow> real)
     \<Rightarrow> error + (matrix \<times> matrix \<times> matrix)" where
  "generate_rand_dataset n_ground_truth_components dataset_size feature_probs feats
       draw_thresh draw_values draw_strengths =
     (if length feature_probs = n_ground_truth_components
         \<and> length feats = n_ground_truth_components
      then
        let dataset_thresh = torch_rand draw_thresh dataset_size n_ground_truth_components;
            dataset_values = torch_rand draw_values dataset_size n_ground_truth_components;
            dataset_codes = where_le dataset_thresh feature_probs dataset_values;
            feature_strengths = torch_rand draw_strengths dataset_size n_ground_truth_components;
            dataset = weighted_sum dataset_codes feature_strengths feats
        in Inr (feats, dataset_codes, dataset)
      else Inl RuntimeError)"

text \<open>
  The inclusion probabilities of \<open>generate_correlated_dataset\<close>: \<open>cdf * decay\<close>, rescaled
  by \<open>frac_nonzero / mean\<close>. The vector \<open>cdf\<close> is the standard normal CDF of the sample of
  the multivariate normal, an input of the model with entries in \<open>[0, 1]\<close>. With no
  component or a zero mean the source computes \<open>nan\<close> and \<open>inf\<close>, which the reals do not
  have: the model fails there.
\<close>

definition scaled_component_probs :: "vec \<Rightarrow> vec \<Rightarrow> real \<Rightarrow> error + vec" where
  "scaled_component_probs cdf decay frac_nonzero =
     (if length cdf \<noteq> length decay then Inl RuntimeError
      else
        let component_probs = map2 (*) cdf decay
        in if component_probs = [] then Inl NonFinite
           else
             let mean_prob = sum_list component_probs / real (length component_probs)
             in if mean_prob = 0 then Inl NonFinite
                else
                  let scaler = frac_nonzero / mean_prob
                  in Inr (map (\<lambda>p. p * scaler) component_probs))"

text \<open>
  \<open>dataset_codes[zero_sample_index, random_index] = 1.0\<close>: entry \<open>random_index[k]\<close> of row
  \<open>zero_sample_index[k]\<close> becomes 1, for every \<open>k\<close>.
\<close>

definition index_put_one :: "nat list \<Rightarrow> nat list \<Rightarrow> matrix \<Rightarrow> matrix" where
  "index_put_one zero_sample_index random_index dataset_codes =
     fold (\<lambda>(i, j) m. m[i := (m ! i)[j := 1]]) (zip zero_sample_index random_index)
       dataset_codes"

text \<open>
  \<open>generate_correlated_dataset\<close>, from the CDF of the correlated sample on. The draws are
  \<open>dataset_thresh\<close>, \<open>dataset_values\<close>, \<open>random_index\<close> and \<open>feature_strengths\<close>, in the
  order of the source.
\<close>

definition generate_correlated_dataset ::
  "nat \<Rightarrow> nat \<Rightarrow> vec \<Rightarrow> matrix \<Rightarrow> real \<Rightarrow> vec
     \<Rightarrow> (nat \<Rightarrow> nat \<Rightarrow> real) \<Rightarrow> (nat \<Rightarrow> nat \<Rightarrow> real) \<Rightarrow> (nat \<Rightarrow> nat) \<Rightarrow> (nat \<Rightarrow> nat \<Rightarrow> real)
     \<Rightarrow> error + (matrix \<times> matrix \<times> matrix)" where
  "generate_correlated_dataset n_ground_truth_components dataset_size cdf feats frac_nonzero decay
       draw_thresh draw_values pick draw_strengths =
     (if length cdf = n_ground_truth_components
         \<and> length feats = n_ground_truth_components
      then
        case scaled_component_probs cdf decay frac_nonzero of
          Inl e \<Rightarrow> Inl e
        | Inr component_probs \<Rightarrow>
            let dataset_thresh = torch_rand draw_thresh dataset_size n_ground_truth_components;
                dataset_values = torch_rand draw_values dataset_size n_ground_truth_components;
                dataset_codes = where_le dataset_thresh component_probs dataset_values;
                zero_sample_index =
                  filter (\<lambda>i. count_nonzero (dataset_codes ! i) = 0) [0..<length dataset_codes];
                random_index = map pick [0..<length zero_sample_index];
                dataset_codes = index_put_one zero_sample_index random_index dataset_codes;
                feature_strengths =
                  torch_rand draw_strengths dataset_size n_ground_truth_components;
                dataset = weighted_sum dataset_codes feature_strengths feats
            in Inr (feats, dataset_codes, dataset)
      else Inl RuntimeError)"

section \<open>run.py: mean max cosine similarity\<close>

text \<open>
  \<open>normalize = lambda v: (v.T / np.linalg.norm(v, axis=1)).T\<close>: every row divided by its
  L2 norm. For a zero row numpy computes \<open>nan\<close>; the model is used on nonzero rows.
\<close>

definition np_normalize :: "matrix \<Rightarrow> matrix" where
  "np_normalize v = map (\<lambda>row. map (\<lambda>x. x / l2_norm row) row) v"

text \<open>
  \<open>cosine_sim\<close>: the matrix of the dot products of the normalized rows. The matrix
  product raises when the rows of the two arguments differ in length.
\<close>

definition cosine_sim :: "matrix \<Rightarrow> matrix \<Rightarrow> error + matrix" where
  "cosine_sim vecs1 vecs2 =
     (let vecs1_norm = np_normalize vecs1;
          vecs2_norm = np_normalize vecs2
      in if list_all (\<lambda>u. list_all (\<lambda>v. length u = length v) vecs2) vecs1
         then Inr (map (\<lambda>u. map (\<lambda>v. dot u v) vecs2_norm) vecs1_norm)
         else Inl (ValueError ''matmul: mismatch in core dimension''))"

text \<open>
  \<open>mean_max_cosine_similarity\<close>: \<open>cos_sim.max(axis=1).mean()\<close>. The maximum over an axis
  of length 0 (an empty learned dictionary) raises.
\<close>

definition mean_max_cosine_similarity :: "matrix \<Rightarrow> matrix \<Rightarrow> error + np_float" where
  "mean_max_cosine_similarity ground_truth_features learned_dictionary =
     (case cosine_sim ground_truth_features learned_dictionary of
        Inl e \<Rightarrow> Inl e
      | Inr cos_sim \<Rightarrow>
          if learned_dictionary = []
          then Inl (ValueError ''zero-size array to reduction operation maximum'')
          else Inr (np_mean (map np_max cos_sim)))"

section \<open>run.py: the AutoEncoder module\<close>

text \<open>
  \<open>decoder_weight\<close> is \<open>decoder.weight\<close>, of shape \<open>(activation_size, n_dict_components)\<close>:
  its columns are the dictionary elements, the rows of \<open>decoder.weight.t()\<close>.
  \<open>encoder_weight\<close> and \<open>encoder_bias\<close> are the parameters of the linear layer of
  \<open>encoder\<close>, of shape \<open>(n_dict_components, activation_size)\<close> and \<open>(n_dict_components)\<close>.
\<close>

record AutoEncoder =
  decoder_weight :: matrix
  encoder_weight :: matrix
  encoder_bias :: vec
  l1_coef :: real
  activation_size :: nat
  n_dict_components :: nat

text \<open>\<open>weight.shape[1]\<close> of a matrix with at least one row.\<close>

definition shape1 :: "matrix \<Rightarrow> nat" where
  "shape1 m = (case m of [] \<Rightarrow> 0 | row # _ \<Rightarrow> length row)"

section \<open>run.py: forward pass and training step of run\_single\_go\<close>

text \<open>
  \<open>nn.functional.normalize(w, dim=0)\<close> with its defaults \<open>p = 2\<close> and \<open>eps = 1e-12\<close>: every
  entry is divided by the norm of its column, clamped from below at \<open>eps\<close>. The module is
  single precision (\<open>t_type = torch.float32\<close>), so the norm of a column overflows as
  described above.
\<close>

definition normalize_dim0 :: "matrix \<Rightarrow> matrix" where
  "normalize_dim0 w =
     (let norms = map torch_l2_norm (transpose w)
      in map (\<lambda>row. map2 (\<lambda>x n. div_norm x (clamp_min (1 / 10 ^ 12) n)) row norms) w)"

text \<open>
  \<open>AutoEncoder.forward\<close>: the codes \<open>c = relu(x @ encoder_weight.T + encoder_bias)\<close>, the
  assignment of the normalized weight to \<open>decoder.weight.data\<close>, and the reconstruction
  \<open>x_hat = c @ decoder_weight.T\<close>. The module after the call is part of the result.
\<close>

definition forward :: "AutoEncoder \<Rightarrow> matrix \<Rightarrow> AutoEncoder \<times> matrix \<times> matrix" where
  "forward self x =
     (let c = map (\<lambda>xb. map2 (\<lambda>w b. max 0 (dot w xb + b))
                          (encoder_weight self) (encoder_bias self)) x;
          self = self\<lparr>decoder_weight := normalize_dim0 (decoder_weight self)\<rparr>;
          x_hat = map (\<lambda>cb. map (\<lambda>w. dot w cb) (decoder_weight self)) c
      in (self, x_hat, c))"

text \<open>
  The gradients that \<open>loss.backward()\<close> leaves on the three parameters, for
  \<open>loss = MSELoss(batch, x_hat) + l1_alpha * norm(c, 1, dim=1).mean()\<close>, written out:
  with \<open>err = x_hat - batch\<close> and \<open>scale = 2 / numel(batch)\<close>, the gradient of the decoder
  weight is \<open>scale * err.T @ c\<close>; the gradient of the codes is
  \<open>scale * err @ decoder_weight + l1_alpha / batch_size * sign(c)\<close>, passed through the
  ReLU where the code is positive; the gradients of the encoder weight and bias are
  \<open>dz.T @ batch\<close> and the column sums of \<open>dz\<close>.
\<close>

definition numel :: "matrix \<Rightarrow> nat" where
  "numel m = sum_list (map length m)"

definition decoder_grad :: "matrix \<Rightarrow> matrix \<Rightarrow> matrix \<Rightarrow> matrix" where
  "decoder_grad batch x_hat c =
     (let err = map2 (map2 (-)) x_hat batch;
          scale = 2 / real (numel batch)
      in map (\<lambda>ecol. map (\<lambda>ccol. scale * dot ecol ccol) (transpose c)) (transpose err))"

definition code_grad :: "real \<Rightarrow> matrix \<Rightarrow> matrix \<Rightarrow> matrix \<Rightarrow> matrix \<Rightarrow> matrix" where
  "code_grad l1_alpha w batch x_hat c =
     (let err = map2 (map2 (-)) x_hat batch;
          scale = 2 / real (numel batch)
      in map2 (\<lambda>eb cb.
                 map2 (\<lambda>wcol cv.
                         if cv > 0
                         then scale * dot eb wcol + l1_alpha / real (length batch) * sgn cv
                         else 0)
                   (transpose w) cb)
           err c)"

definition encoder_grad :: "matrix \<Rightarrow> matrix \<Rightarrow> matrix" where
  "encoder_grad dz batch = map (\<lambda>zcol. map (\<lambda>xcol. dot zcol xcol) (transpose batch)) (transpose dz)"

definition bias_grad :: "matrix \<Rightarrow> vec" where
  "bias_grad dz = map sum_list (transpose dz)"

text \<open>
  One step of \<open>torch.optim.Adam\<close> with its defaults \<open>betas = (0.9, 0.999)\<close>, \<open>eps = 1e-8\<close>
  and no weight decay, on one entry of a parameter: the entry, its gradient and its two
  moment estimates go in, the new entry and the new estimates come out.
\<close>

definition adam :: "real \<Rightarrow> nat \<Rightarrow> real \<times> real \<times> real \<times> real \<Rightarrow> real \<times> real \<times> real" where
  "adam lr step pgmv =
     (case pgmv of (param, grad, exp_avg, exp_avg_sq) \<Rightarrow>
        let exp_avg = 9 / 10 * exp_avg + (1 - 9 / 10) * grad;
            exp_avg_sq = 999 / 1000 * exp_avg_sq + (1 - 999 / 1000) * grad * grad;
            bias_correction1 = 1 - (9 / 10) ^ step;
            bias_correction2 = 1 - (999 / 1000) ^ step;
            step_size = lr / bias_correction1;
            denom = sqrt exp_avg_sq / sqrt bias_correction2 + 1 / 10 ^ 8
        in (param - step_size * (exp_avg / denom), exp_avg, exp_avg_sq))"

definition adam_vec ::
  "real \<Rightarrow> nat \<Rightarrow> vec \<Rightarrow> vec \<Rightarrow> vec \<Rightarrow> vec \<Rightarrow> (real \<times> real \<times> real) list" where
  "adam_vec lr step p g m v = map (adam lr step) (zip p (zip g (zip m v)))"

definition adam_mat ::
  "real \<Rightarrow> nat \<Rightarrow> matrix \<Rightarrow> matrix \<Rightarrow> matrix \<Rightarrow> matrix \<Rightarrow> (real \<times> real \<times> real) list list" where
  "adam_mat lr step p g m v =
     map (\<lambda>(pr, gr, mr, vr). adam_vec lr step pr gr mr vr) (zip p (zip g (zip m v)))"

record adam_state =
  step :: nat
  exp_avg_decoder :: matrix
  exp_avg_sq_decoder :: matrix
  exp_avg_encoder :: matrix
  exp_avg_sq_encoder :: matrix
  exp_avg_bias :: vec
  exp_avg_sq_bias :: vec

text \<open>The state of the optimizer before its first step: all moment estimates are zero.\<close>

definition adam_init :: "AutoEncoder \<Rightarrow> adam_state" where
  "adam_init ae =
     \<lparr>step = 0,
      exp_avg_decoder = map (map (\<lambda>_. 0)) (decoder_weight ae),
      exp_avg_sq_decoder = map (map (\<lambda>_. 0)) (decoder_weight ae),
      exp_avg_encoder = map (map (\<lambda>_. 0)) (encoder_weight ae),
      exp_avg_sq_encoder = map (map (\<lambda>_. 0)) (encoder_weight ae),
      exp_avg_bias = map (\<lambda>_. 0) (encoder_bias ae),
      exp_avg_sq_bias = map (\<lambda>_. 0) (encoder_bias ae)\<rparr>"

text \<open>
  One iteration of the training loop of \<open>run_single_go\<close> on a batch (noise included):
  forward pass, loss, backward pass, optimizer step. Nothing follows the optimizer step
  but the bookkeeping of the losses.
\<close>

definition train_step ::
  "real \<Rightarrow> real \<Rightarrow> matrix \<Rightarrow> AutoEncoder \<times> adam_state \<Rightarrow> AutoEncoder \<times> adam_state" where
  "train_step learning_rate l1_alpha batch st =
     (case st of (auto_encoder, optimizer) \<Rightarrow>
        case forward auto_encoder batch of (auto_encoder, x_hat, c) \<Rightarrow>
          let g_dec = decoder_grad batch x_hat c;
              dz = code_grad l1_alpha (decoder_weight auto_encoder) batch x_hat c;
              g_enc = encoder_grad dz batch;
              g_bias = bias_grad dz;
              t = step optimizer + 1;
              dec = adam_mat learning_rate t (decoder_weight auto_encoder) g_dec
                      (exp_avg_decoder optimizer) (exp_avg_sq_decoder optimizer);
              enc = adam_mat learning_rate t (encoder_weight auto_encoder) g_enc
                      (exp_avg_encoder optimizer) (exp_avg_sq_encoder optimizer);
              bias = adam_vec learning_rate t (encoder_bias auto_encoder) g_bias
                      (exp_avg_bias optimizer) (exp_avg_sq_bias optimizer)
          in (auto_encoder\<lparr>decoder_weight := map (map fst) dec,
                            encoder_weight := map (map fst) enc,
                            encoder_bias := map fst bias\<rparr>,
              \<lparr>step = t,
               exp_avg_decoder = map (map (fst \<circ> snd)) dec,
               exp_avg_sq_decoder = map (map (snd \<circ> snd)) dec,
               exp_avg_encoder = map (map (fst \<circ> snd)) enc,
               exp_avg_sq_encoder = map (map (snd \<circ> snd)) enc,
               exp_avg_bias = map (fst \<circ> snd) bias,
               exp_avg_sq_bias = map (snd \<circ> snd) bias\<rparr>))"

text \<open>The training loop of \<open>run_single_go\<close> over the batches of the epochs.\<close>

definition training_loop ::
  "real \<Rightarrow> real \<Rightarrow> matrix list \<Rightarrow> AutoEncoder \<Rightarrow> AutoEncoder \<times> adam_state" where
  "training_loop learning_rate l1_alpha batches auto_encoder =
     fold (train_step learning_rate l1_alpha) batches (auto_encoder, adam_init auto_encoder)"

text \<open>
  Example modules: one dictionary element in one dimension, with unit norm; and one
  dictionary element \<open>(3, 4)\<close> in two dimensions, as it may be after an optimizer step.
\<close>

definition unnormalized_autoencoder :: AutoEncoder where
  "unnormalized_autoencoder =
     \<lparr>decoder_weight = [[3], [4]], encoder_weight = [[1, 1]], encoder_bias = [0],
      l1_coef = 0, activation_size = 2, n_dict_components = 1\<rparr>"

definition example_autoencoder :: AutoEncoder where
  "example_autoencoder =
     \<lparr>decoder_weight = [[1]], encoder_weight = [[1 / 2]], encoder_bias = [0],
      l1_coef = 0, activation_size = 1, n_dict_components = 1\<rparr>"

section \<open>run.py: configuration and checkpoint loading of run\_real\_data\_model\<close>

record config =
  model_name :: string
  activation_dim :: nat
  l1_exp_base :: real
  l1_exp_low :: int
  l1_exp_high :: int
  dict_ratio_exp_base :: int
  dict_ratio_exp_low :: int
  dict_ratio_exp_high :: int
  load_autoencoders :: string

text \<open>The host model that the name selects.\<close>

datatype host_model = HookedTransformer string | NanoGPT

text \<open>The lines printed by the checkpoint loading loop.\<close>

datatype message =
    Mismatch nat nat
  | Loading real nat
  | Unable real nat

definition select_model :: "config \<Rightarrow> error + host_model" where
  "select_model cfg =
     (if model_name cfg \<in> set [''gpt2'', ''EleutherAI/pythia-70m-deduped'']
      then Inr (HookedTransformer (model_name cfg))
      else if model_name cfg = ''nanoGPT'' then Inr NanoGPT
      else Inl (ValueError ''Model name not recognised''))"

text \<open>\<open>base ** exp\<close> for an integer exponent; \<open>0 ** exp\<close> raises for a negative one.\<close>

definition py_pow :: "real \<Rightarrow> int \<Rightarrow> error + real" where
  "py_pow base e = (if base = 0 \<and> e < 0 then Inl ZeroDivisionError else Inr (base powi e))"

fun collect :: "(error + 'a) list \<Rightarrow> error + 'a list" where
  "collect [] = Inr []"
| "collect (x # xs) =
     (case x of
        Inl e \<Rightarrow> Inl e
      | Inr v \<Rightarrow> (case collect xs of Inl e \<Rightarrow> Inl e | Inr vs \<Rightarrow> Inr (v # vs)))"

text \<open>\<open>int(x)\<close>: truncation towards zero.\<close>

definition py_int :: "real \<Rightarrow> int" where
  "py_int x = (if 0 \<le> x then \<lfloor>x\<rfloor> else \<lceil>x\<rceil>)"

text \<open>\<open>xs.index(x)\<close> for an element of the list.\<close>

definition list_index :: "'a list \<Rightarrow> 'a \<Rightarrow> nat" where
  "list_index xs x = length (takeWhile (\<lambda>y. y \<noteq> x) xs)"

text \<open>
  One iteration of the loading loop, for the loaded autoencoder \<open>ae\<close>: the state is the
  list of printed messages and the grid \<open>auto_encoders\<close>.
\<close>

definition load_autoencoder ::
  "nat \<Rightarrow> real list \<Rightarrow> int list \<Rightarrow> AutoEncoder
     \<Rightarrow> message list \<times> AutoEncoder list list \<Rightarrow> message list \<times> AutoEncoder list list" where
  "load_autoencoder act_dim l1_range dict_sizes ae st =
     (case st of (printed, auto_encoders) \<Rightarrow>
        if activation_size ae \<noteq> act_dim
        then (printed @ [Mismatch act_dim (activation_size ae)], auto_encoders)
        else if l1_coef ae \<in> set l1_range
                \<and> int (shape1 (decoder_weight ae)) \<in> set dict_sizes
        then (printed @ [Loading (l1_coef ae) (shape1 (decoder_weight ae))],
              auto_encoders
                [list_index l1_range (l1_coef ae) :=
                   (auto_encoders ! list_index l1_range (l1_coef ae))
                     [list_index dict_sizes (int (shape1 (decoder_weight ae))) := ae]])
        else (printed @ [Unable (l1_coef ae) (shape1 (decoder_weight ae))], auto_encoders))"

text \<open>
  \<open>run_real_data_model\<close> up to the start of the training loop. Inputs besides the
  configuration: \<open>cached\<close>, the activation dimension of the cached activations when the
  dataset folder is not empty; \<open>new_autoencoder\<close>, the constructor \<open>AutoEncoder\<close> with its
  random initialisation; \<open>pickled\<close>, the content of the file \<open>cfg.load_autoencoders\<close>. The
  result is the printed messages of the loading loop and the grid \<open>auto_encoders\<close> that
  the training loop then runs on. A negative dictionary size is refused by the constructor.
\<close>

definition run_real_data_model ::
  "config \<Rightarrow> nat option \<Rightarrow> (nat \<Rightarrow> nat \<Rightarrow> real \<Rightarrow> AutoEncoder) \<Rightarrow> AutoEncoder list list
     \<Rightarrow> error + (message list \<times> AutoEncoder list list)" where
  "run_real_data_model cfg cached new_autoencoder pickled =
     (case select_model cfg of
        Inl e \<Rightarrow> Inl e
      | Inr model \<Rightarrow>
          let act_dim = (case cached of None \<Rightarrow> activation_dim cfg | Some d \<Rightarrow> d)
          in case collect (map (py_pow (l1_exp_base cfg))
                             [l1_exp_low cfg .. l1_exp_high cfg - 1]) of
               Inl e \<Rightarrow> Inl e
             | Inr l1_range \<Rightarrow>
                (case collect (map (py_pow (real_of_int (dict_ratio_exp_base cfg)))
                                [dict_ratio_exp_low cfg .. dict_ratio_exp_high cfg - 1]) of
                   Inl e \<Rightarrow> Inl e
                 | Inr dict_ratios \<Rightarrow>
                     let dict_sizes = map (\<lambda>ratio. py_int (real act_dim * ratio)) dict_ratios
                     in if list_all (\<lambda>n_feats. 0 \<le> n_feats) dict_sizes
                        then
                          let auto_encoders =
                                map (\<lambda>l1_ndx.
                                       map (\<lambda>n_feats. new_autoencoder act_dim (nat n_feats) l1_ndx)
                                         dict_sizes)
                                  l1_range
                          in if load_autoencoders cfg = []
                             then Inr ([], auto_encoders)
                             else Inr (fold (load_autoencoder act_dim l1_range dict_sizes)
                                         (concat pickled) ([], auto_encoders))
                        else Inl RuntimeError))"

text \<open>The invariant of the grid: every autoencoder has activation size \<open>d\<close>.\<close>

definition grid_dim :: "nat \<Rightarrow> AutoEncoder list list \<Rightarrow> bool" where
  "grid_dim d g \<longleftrightarrow> (\<forall>row \<in> set g. \<forall>a \<in> set row. activation_size a = d)"

text \<open>
  Example inputs: a constructor whose decoder weight has orthonormal rows (ones on the
  diagonal) and whose encoder parameters are zero, and a configuration for the model
  \<open>gpt2\<close> with activation dimension 1, one L1 coefficient \<open>2 ** 0\<close> and one dictionary
  ratio \<open>2 ** 1\<close>, that loads checkpointed autoencoders.
\<close>

definition initial_autoencoder :: "nat \<Rightarrow> nat \<Rightarrow> real \<Rightarrow> AutoEncoder" where
  "initial_autoencoder d n l =
     \<lparr>decoder_weight = map (\<lambda>i. map (\<lambda>j. if i = j then 1 else 0) [0..<n]) [0..<d],
      encoder_weight = replicate n (replicate d 0),
      encoder_bias = replicate n 0,
      l1_coef = l, activation_size = d, n_dict_components = n\<rparr>"

definition example_config :: config where
  "example_config =
     \<lparr>model_name = ''gpt2'', activation_dim = 1,
      l1_exp_base = 2, l1_exp_low = 0, l1_exp_high = 1,
      dict_ratio_exp_base = 2, dict_ratio_exp_low = 1, dict_ratio_exp_high = 2,
      load_autoencoders = ''autoencoders.pkl''\<rparr>"

section \<open>run.py: comparison of each dictionary with the next larger one\<close>

text \<open>
  \<open>torch.nn.functional.cosine_similarity(x1, x2, eps=1e-8)\<close> of two vectors, as documented:
  the dot product divided by the maximum of the product of the norms and \<open>eps\<close>. (Later
  releases of torch clamp each norm at \<open>eps\<close> instead; the two agree on vectors of norm at
  least \<open>1e-4\<close>, unit vectors among them.)
\<close>

definition cosine_similarity :: "vec \<Rightarrow> vec \<Rightarrow> real" where
  "cosine_similarity x1 x2 = dot x1 x2 / max (l2_norm x1 * l2_norm x2) (1 / 10 ^ 8)"

text \<open>
  The assignment problem. For a cost matrix with \<open>nr\<close> rows and \<open>nc\<close> columns, a complete
  assignment pairs every row with a column of its own when \<open>nr \<le> nc\<close>, and every column
  with a row of its own otherwise; the pairs are listed by increasing row, as
  \<open>row_ind, col_ind\<close> of \<open>scipy.optimize.linear_sum_assignment\<close> are.
\<close>

fun injections :: "nat \<Rightarrow> nat list \<Rightarrow> nat list list" where
  "injections 0 cs = [[]]"
| "injections (Suc k) cs = concat (map (\<lambda>c. map ((#) c) (injections k (remove1 c cs))) cs)"

definition assignments :: "nat \<Rightarrow> nat \<Rightarrow> (nat \<times> nat) list list" where
  "assignments nr nc =
     (if nr \<le> nc then map (zip [0..<nr]) (injections nr [0..<nc])
      else map (\<lambda>rs. sort_key fst (zip rs [0..<nc])) (injections nc [0..<nr]))"

definition assignment_cost :: "matrix \<Rightarrow> (nat \<times> nat) list \<Rightarrow> real" where
  "assignment_cost cost pairs = sum_list (map (\<lambda>(i, j). cost ! i ! j) pairs)"


text \<open>A solver that meets the contract: the first complete assignment of minimum cost.\<close>

definition min_cost_assignment :: "matrix \<Rightarrow> (nat \<times> nat) list" where
  "min_cost_assignment cost =
     arg_min_list (assignment_cost cost) (assignments (length cost) (shape1 cost))"

text \<open>
  The body of the loop of \<open>run_mmcs_with_larger\<close> for one pair of dictionaries: the mean
  of the matched similarities, the percentage of them above the threshold and the matched
  similarities. The solver \<open>linear_sum_assignment\<close> is a parameter. The threshold argument
  is overwritten by \<open>threshold = 0.9\<close> before it is used. The rows of the two dictionaries
  have one length, the activation dimension; the percentage divides by the number of rows
  of the smaller dictionary.
\<close>

definition match_with_larger ::
  "(matrix \<Rightarrow> (nat \<times> nat) list) \<Rightarrow> matrix \<Rightarrow> matrix \<Rightarrow> real
     \<Rightarrow> error + (np_float \<times> real \<times> real list)" where
  "match_with_larger linear_sum_assignment smaller_dict larger_dict_clone threshold =
     (if list_all (\<lambda>u. list_all (\<lambda>v. length u = length v) larger_dict_clone) smaller_dict
      then
        let smaller_dict_features = length smaller_dict;
            cos_sims = map (\<lambda>vector. map (cosine_similarity vector) larger_dict_clone)
                         smaller_dict;
            cos_sims = map (map (\<lambda>c. 1 - c)) cos_sims;
            pairs = linear_sum_assignment cos_sims;
            max_cosine_similarities = map (\<lambda>(i, j). 1 - cos_sims ! i ! j) pairs;
            threshold = 9 / 10
        in if smaller_dict_features = 0 then Inl ZeroDivisionError
           else Inr (np_mean max_cosine_similarities,
                     real (length (filter (\<lambda>c. c > threshold) max_cosine_similarities))
                       / real smaller_dict_features * 100,
                     max_cosine_similarities)
      else Inl RuntimeError)"

record mmcs_state =
  av_mmcs_with_larger_dicts :: "np_float list list"
  feats_above_threshold :: "real list list"
  full_max_cosine_sim_for_histograms :: "real list option list list"

definition get_item :: "'a list \<Rightarrow> nat \<Rightarrow> error + 'a" where
  "get_item xs i = (if i < length xs then Inr (xs ! i) else Inl IndexError)"

definition set2 :: "'a list list \<Rightarrow> nat \<Rightarrow> nat \<Rightarrow> 'a \<Rightarrow> 'a list list" where
  "set2 m l k v = m[l := (m ! l)[k := v]]"

fun fold_err :: "('a \<Rightarrow> 's \<Rightarrow> error + 's) \<Rightarrow> 'a list \<Rightarrow> 's \<Rightarrow> error + 's" where
  "fold_err f [] s = Inr s"
| "fold_err f (x # xs) s = (case f x s of Inl e \<Rightarrow> Inl e | Inr s' \<Rightarrow> fold_err f xs s')"

text \<open>One iteration of the loop over \<open>itertools.product(range(n_l1_coefs), range(n_dict_sizes))\<close>.\<close>

definition mmcs_step ::
  "(matrix \<Rightarrow> (nat \<times> nat) list) \<Rightarrow> matrix list list \<Rightarrow> nat \<Rightarrow> real
     \<Rightarrow> nat \<times> nat \<Rightarrow> mmcs_state \<Rightarrow> error + mmcs_state" where
  "mmcs_step linear_sum_assignment learned_dicts n_dict_sizes threshold ndx st =
     (case ndx of (l1_ndx, dict_size_ndx) \<Rightarrow>
        if dict_size_ndx = n_dict_sizes - 1 then Inr st
        else
          case get_item (learned_dicts ! l1_ndx) dict_size_ndx of
            Inl e \<Rightarrow> Inl e
          | Inr smaller_dict \<Rightarrow>
             (case get_item (learned_dicts ! l1_ndx) (dict_size_ndx + 1) of
                Inl e \<Rightarrow> Inl e
              | Inr larger_dict_clone \<Rightarrow>
                 (case match_with_larger linear_sum_assignment smaller_dict larger_dict_clone
                         threshold of
                    Inl e \<Rightarrow> Inl e
                  | Inr (mean_sim, pct_above, max_cosine_similarities) \<Rightarrow>
                      Inr (st\<lparr>av_mmcs_with_larger_dicts :=
                                set2 (av_mmcs_with_larger_dicts st) l1_ndx dict_size_ndx mean_sim,
                              feats_above_threshold :=
                                set2 (feats_above_threshold st) l1_ndx dict_size_ndx pct_above,
                              full_max_cosine_sim_for_histograms :=
                                set2 (full_max_cosine_sim_for_histograms st) l1_ndx dict_size_ndx
                                  (Some max_cosine_similarities)\<rparr>))))"

text \<open>
  \<open>run_mmcs_with_larger\<close>. \<open>learned_dicts[0]\<close> raises on an empty list, and
  \<open>np.empty((n_l1_coefs, n_dict_sizes - 1))\<close> raises when there is no dictionary size.
\<close>

definition run_mmcs_with_larger ::
  "(matrix \<Rightarrow> (nat \<times> nat) list) \<Rightarrow> matrix list list \<Rightarrow> real \<Rightarrow> error + mmcs_state" where
  "run_mmcs_with_larger linear_sum_assignment learned_dicts threshold =
     (case learned_dicts of
        [] \<Rightarrow> Inl IndexError
      | first # _ \<Rightarrow>
          let n_l1_coefs = length learned_dicts;
              n_dict_sizes = length first
          in if n_dict_sizes = 0 then Inl (ValueError ''negative dimensions are not allowed'')
             else fold_err (mmcs_step linear_sum_assignment learned_dicts n_dict_sizes threshold)
                    (List.product [0..<n_l1_coefs] [0..<n_dict_sizes])
                    \<lparr>av_mmcs_with_larger_dicts =
                        replicate n_l1_coefs (replicate n_dict_sizes (Finite 0)),
                      feats_above_threshold = replicate n_l1_coefs (replicate n_dict_sizes 0),
                      full_max_cosine_sim_for_histograms =
                        replicate n_l1_coefs (replicate (n_dict_sizes - 1) None)\<rparr>)"

text \<open>
  Predicates on the state of the loop: slot \<open>(l, k)\<close> holds the result of matching
  dictionary \<open>k\<close> with dictionary \<open>k + 1\<close> of row \<open>l\<close>; a slot has the same content in two
  states; the three output matrices have their shapes.
\<close>

definition slot_written ::
  "(matrix \<Rightarrow> (nat \<times> nat) list) \<Rightarrow> matrix list list \<Rightarrow> real \<Rightarrow> mmcs_state \<Rightarrow> nat \<Rightarrow> nat \<Rightarrow> bool" where
  "slot_written lsa dicts thr st l k \<longleftrightarrow>
     (\<exists>m p mcs. match_with_larger lsa (dicts ! l ! k) (dicts ! l ! (k + 1)) thr = Inr (m, p, mcs)
        \<and> av_mmcs_with_larger_dicts st ! l ! k = m
        \<and> feats_above_threshold st ! l ! k = p
        \<and> full_max_cosine_sim_for_histograms st ! l ! k = Some mcs)"

definition same_slot :: "mmcs_state \<Rightarrow> mmcs_state \<Rightarrow> nat \<Rightarrow> nat \<Rightarrow> bool" where
  "same_slot st' st l k \<longleftrightarrow>
     av_mmcs_with_larger_dicts st' ! l ! k = av_mmcs_with_larger_dicts st ! l ! k
     \<and> feats_above_threshold st' ! l ! k = feats_above_threshold st ! l ! k
     \<and> full_max_cosine_sim_for_histograms st' ! l ! k
         = full_max_cosine_sim_for_histograms st ! l ! k"

definition mmcs_shape :: "nat \<Rightarrow> nat \<Rightarrow> mmcs_state \<Rightarrow> bool" where
  "mmcs_shape nl n st \<longleftrightarrow>
     length (av_mmcs_with_larger_dicts st) = nl
     \<and> (\<forall>r \<in> set (av_mmcs_with_larger_dicts st). length r = n)
     \<and> length (feats_above_threshold st) = nl
     \<and> (\<forall>r \<in> set (feats_above_threshold st). length r = n)
     \<and> length (full_max_cosine_sim_for_histograms st) = nl
     \<and> (\<forall>r \<in> set (full_max_cosine_sim_for_histograms st). length r = n - 1)"

section \<open>Properties of the dictionary read\<close>

lemma l2_norm_nonneg: "0 \<le> l2_norm v"
  unfolding l2_norm_def by (rule real_sqrt_ge_zero, rule sum_list_nonneg) auto

lemma l2_norm_scale: "l2_norm (map (\<lambda>x. x / c) v) = l2_norm v / \<bar>c\<bar>"
proof -
  have "sum_list (map (\<lambda>x. (x / c) * (x / c)) v) = sum_list (map (\<lambda>x. x * x) v) / (c * c)"
    by (induction v) (simp_all add: add_divide_distrib)
  then show ?thesis
    by (simp add: l2_norm_def comp_def real_sqrt_divide)
qed

lemma sum_squares_le:
  assumes "l2_norm v \<le> b"
  shows "sum_list (map (\<lambda>x. x * x) v) \<le> b * b"
proof -
  have nn: "0 \<le> sum_list (map (\<lambda>x. x * x) v)"
    by (rule sum_list_nonneg) auto
  have "0 \<le> b" using assms l2_norm_nonneg [of v] by linarith
  then have "sqrt (sum_list (map (\<lambda>x. x * x) v)) \<le> sqrt (b * b)"
    using assms by (simp add: l2_norm_def)
  then show ?thesis by (simp only: real_sqrt_le_iff)
qed

lemma torch_l2_norm_finite:
  assumes "l2_norm v \<le> 10 ^ 18"
  shows "torch_l2_norm v = Norm (l2_norm v)"
proof -
  have "sum_list (map (\<lambda>x. x * x) v) \<le> 10 ^ 18 * 10 ^ 18"
    by (rule sum_squares_le [OF assms])
  also have "\<dots> < float32_overflow" by (simp add: float32_overflow_def)
  finally show ?thesis by (simp add: torch_l2_norm_def)
qed

lemma torch_l2_norm_overflow:
  assumes "float32_overflow \<le> sum_list (map (\<lambda>x. x * x) v)"
  shows "torch_l2_norm v = InfNorm"
  using assms by (simp add: torch_l2_norm_def)

lemma renorm_row_unit:
  assumes "1 / 10 ^ 8 \<le> l2_norm row" and "l2_norm row \<le> 10 ^ 18"
  shows "l2_norm (renorm_row row) = 1"
proof -
  have m: "max (1 / 10 ^ 8) (l2_norm row) = l2_norm row"
    using assms(1) by (simp add: max_def)
  have pos: "0 < l2_norm row"
    using assms(1) by (smt (verit) divide_pos_pos zero_less_power)
  have "clamp_min (1 / 10 ^ 8) (torch_l2_norm row) = Norm (l2_norm row)"
    unfolding torch_l2_norm_finite [OF assms(2)] clamp_min_def norm_val.case m ..
  then have "renorm_row row = map (\<lambda>x. x / l2_norm row) row"
    by (simp add: renorm_row_def div_norm_def)
  then show ?thesis using pos by (simp add: l2_norm_scale)
qed

lemma renorm_row_overflow:
  assumes "float32_overflow \<le> sum_list (map (\<lambda>x. x * x) row)"
  shows "renorm_row row = map (\<lambda>x. 0) row"
  by (simp add: renorm_row_def torch_l2_norm_overflow [OF assms] clamp_min_def div_norm_def)

lemma renorm_row_zero:
  assumes "\<forall>x \<in> set row. x = 0"
  shows "renorm_row row = row"
proof -
  have "sum_list (map (\<lambda>x. x * x) row) = 0"
    using assms by (induction row) auto
  then have n: "torch_l2_norm row = Norm 0"
    by (simp add: torch_l2_norm_def l2_norm_def float32_overflow_def)
  show ?thesis
    unfolding renorm_row_def n by (rule map_idI) (use assms in \<open>auto simp: div_norm_def clamp_min_def\<close>)
qed

lemma map2_renorm:
  "map2 (\<lambda>row n. map (\<lambda>x. div_norm x n) row) m
       (map (clamp_min (1 / 10 ^ 8)) (map torch_l2_norm m))
     = map renorm_row m"
  by (induction m) (simp_all add: renorm_row_def)

lemma clamp_nonzero: "0 < lo \<Longrightarrow> Norm 0 \<notin> set (map (clamp_min lo) v)"
  by (induction v) (auto simp: clamp_min_def max_def split: norm_val.splits)

lemma renormalize_steps:
  assumes "load h a = Some (Mat m)"
  shows "\<exists>norms h1 clamped h2.
           torch_norm h a = Some (norms, h1) \<and>
           torch_clamp h1 norms (1 / 10 ^ 8) = Some (clamped, h2) \<and>
           div_rows h2 a clamped
             = Some (length h + 2, h @ [Norms (map torch_l2_norm m),
                       Norms (map (clamp_min (1 / 10 ^ 8)) (map torch_l2_norm m)),
                       Mat (map renorm_row m)])"
proof -
  have a: "a < length h" and ha: "h ! a = Mat m"
    using assms by (auto simp: load_def split: if_splits)
  have nz: "Norm 0 \<notin> set (map (clamp_min (1 / 10 ^ 8)) (map torch_l2_norm m))"
    by (rule clamp_nonzero) simp
  note r = map2_renorm [of m]
  have 1: "torch_norm h a = Some (length h, h @ [Norms (map torch_l2_norm m)])"
    using assms by (simp add: torch_norm_def alloc_def)
  have 2: "torch_clamp (h @ [Norms (map torch_l2_norm m)]) (length h) (1 / 10 ^ 8)
             = Some (length h + 1, h @ [Norms (map torch_l2_norm m),
                       Norms (map (clamp_min (1 / 10 ^ 8)) (map torch_l2_norm m))])"
    by (simp add: torch_clamp_def load_def alloc_def)
  have 3: "div_rows (h @ [Norms (map torch_l2_norm m),
                          Norms (map (clamp_min (1 / 10 ^ 8)) (map torch_l2_norm m))])
             a (length h + 1)
           = Some (length h + 2, h @ [Norms (map torch_l2_norm m),
                       Norms (map (clamp_min (1 / 10 ^ 8)) (map torch_l2_norm m)),
                       Mat (map renorm_row m)])"
    using a ha nz r
    by (simp add: div_rows_def load_def alloc_def nth_append del: set_map map_map)
  show ?thesis using 1 2 3 by simp
qed

lemma untied_get_learned_dict_value:
  assumes "load h (decoder self) = Some (Mat m)"
  shows "untied_get_learned_dict self h
           = Some (length h + 2, self, h @ [Norms (map torch_l2_norm m),
                     Norms (map (clamp_min (1 / 10 ^ 8)) (map torch_l2_norm m)),
                     Mat (map renorm_row m)])"
  using renormalize_steps [OF assms] by (auto simp: untied_get_learned_dict_def)

lemma tied_get_learned_dict_value:
  assumes "load h (t_encoder self) = Some (Mat m)"
  shows "tied_get_learned_dict self h
           = Some (length h + 2, self, h @ [Norms (map torch_l2_norm m),
                     Norms (map (clamp_min (1 / 10 ^ 8)) (map torch_l2_norm m)),
                     Mat (map renorm_row m)])"
  using renormalize_steps [OF assms] by (auto simp: tied_get_learned_dict_def)

lemma load_appended:
  "load (h @ [a, b, c]) (Suc (Suc (length h))) = Some c"
  by (simp add: load_def nth_append)

lemma tied_encode_weight_value:
  assumes "load h (t_encoder self) = Some (Mat m)" and "norm_encoder self"
  shows "tied_encode_weight self h
           = Some (length h + 2, self, h @ [Norms (map torch_l2_norm m),
                     Norms (map (clamp_min (1 / 10 ^ 8)) (map torch_l2_norm m)),
                     Mat (map renorm_row m)])"
  using renormalize_steps [OF assms(1)] assms(2) by (auto simp: tied_encode_weight_def)

lemma l2_norm_3_4: "l2_norm [3, 4] = 5"
proof -
  have "l2_norm [3, 4] = sqrt (5 * 5)" by (simp add: l2_norm_def)
  then show ?thesis by (simp only: real_sqrt_abs2 abs_numeral)
qed

lemma renorm_row_3_4: "renorm_row [3, 4] = [3 / 5, 4 / 5]"
  by (simp add: renorm_row_def torch_l2_norm_def float32_overflow_def l2_norm_3_4
      clamp_min_def div_norm_def)

lemma renorm_row_large: "renorm_row [3 * 10 ^ 20, 4 * 10 ^ 20] = [0, 0]"
  by (simp add: renorm_row_def torch_l2_norm_def float32_overflow_def clamp_min_def
      div_norm_def)

text \<open>
  Claim C9, as amended. For every untied model whose decoder field refers to a matrix,
  \<open>get_learned_dict\<close> returns a tensor at an address that was not allocated before the
  call, holding each decoder row divided by the maximum of its L2 norm and \<open>1e-8\<close>. Such a
  row has unit L2 norm whenever the norm of the decoder row is at least \<open>1e-8\<close> and at most
  \<open>1e18\<close>; a decoder row whose sum of squares overflows single precision is returned as
  an all-zero row. The object is returned as it was, and every tensor of the store before
  the call (the decoder among them) is unchanged after it.
\<close>

theorem untied_get_learned_dict_frame:
  assumes "load h (decoder self) = Some (Mat m)"
  shows "\<exists>r h'. untied_get_learned_dict self h = Some (r, self, h')
           \<and> take (length h) h' = h
           \<and> load h' (decoder self) = Some (Mat m)
           \<and> load h r = None
           \<and> r \<noteq> decoder self
           \<and> load h' r = Some (Mat (map renorm_row m))
           \<and> (\<forall>row \<in> set m. 1 / 10 ^ 8 \<le> l2_norm row \<and> l2_norm row \<le> 10 ^ 18
                 \<longrightarrow> l2_norm (renorm_row row) = 1)
           \<and> (\<forall>row \<in> set m. float32_overflow \<le> sum_list (map (\<lambda>x. x * x) row)
                 \<longrightarrow> renorm_row row = map (\<lambda>x. 0) row)"
proof -
  have a: "decoder self < length h" and ha: "h ! decoder self = Mat m"
    using assms by (auto simp: load_def split: if_splits)
  have u: "\<forall>row \<in> set m. 1 / 10 ^ 8 \<le> l2_norm row \<and> l2_norm row \<le> 10 ^ 18
             \<longrightarrow> l2_norm (renorm_row row) = 1"
    using renorm_row_unit by blast
  have o: "\<forall>row \<in> set m. float32_overflow \<le> sum_list (map (\<lambda>x. x * x) row)
             \<longrightarrow> renorm_row row = map (\<lambda>x. 0) row"
    using renorm_row_overflow by blast
  have f: "load h (length h + 2) = None" by (simp add: load_def)
  have k: "load (h @ [x, y, z]) (decoder self) = Some (Mat m)" for x y z
    using a ha by (simp add: load_def nth_append)
  have l: "load (h @ [x, y, z]) (length h + 2) = Some z" for x y z
    by (simp add: load_def nth_append)
  have n: "length h + 2 \<noteq> decoder self" using a by simp
  show ?thesis
    unfolding untied_get_learned_dict_value [OF assms]
    using f k l n u o by simp
qed

theorem untied_get_learned_dict_frame_witness:
  "\<exists>r h'. untied_get_learned_dict \<lparr>encoder = 0, decoder = 1, encoder_bias = 2\<rparr>
              [Mat [[1, 0], [0, 1]], Mat [[3, 4], [3 * 10 ^ 20, 4 * 10 ^ 20]], Vec [0, 0]]
            = Some (r, \<lparr>encoder = 0, decoder = 1, encoder_bias = 2\<rparr>, h')
        \<and> load h' 1 = Some (Mat [[3, 4], [3 * 10 ^ 20, 4 * 10 ^ 20]])
        \<and> load [Mat [[1, 0], [0, 1]], Mat [[3, 4], [3 * 10 ^ 20, 4 * 10 ^ 20]], Vec [0, 0]] r
            = None
        \<and> load h' r = Some (Mat [[3 / 5, 4 / 5], [0, 0]])
        \<and> l2_norm (renorm_row [3, 4]) = 1"
proof -
  let ?h = "[Mat [[1, 0], [0, 1]], Mat [[3, 4], [3 * 10 ^ 20, 4 * 10 ^ 20]], Vec [0, 0]]"
  have l: "load ?h (decoder \<lparr>encoder = 0, decoder = 1, encoder_bias = 2\<rparr>)
           = Some (Mat [[3, 4], [3 * 10 ^ 20, 4 * 10 ^ 20]])"
    by (simp add: load_def)
  have b: "1 / 10 ^ 8 \<le> l2_norm [3, 4] \<and> l2_norm [3, 4] \<le> 10 ^ 18"
    by (simp add: l2_norm_3_4)
  show ?thesis
    using untied_get_learned_dict_frame [OF l] b
    by (auto simp: renorm_row_3_4 renorm_row_large [simplified])
qed

text \<open>
  Claim C9, as stated, fails on a decoder with an all-zero row: the row that
  \<open>get_learned_dict\<close> returns for it is all-zero, and its L2 norm is 0, not 1.
\<close>

theorem untied_get_learned_dict_unit_counterexample:
  "untied_get_learned_dict \<lparr>encoder = 0, decoder = 1, encoder_bias = 2\<rparr>
       [Mat [[1, 0]], Mat [[0, 0]], Vec [0]]
     = Some (5, \<lparr>encoder = 0, decoder = 1, encoder_bias = 2\<rparr>,
             [Mat [[1, 0]], Mat [[0, 0]], Vec [0],
              Norms [Norm 0], Norms [Norm (1 / 10 ^ 8)], Mat [[0, 0]]])
   \<and> l2_norm [0, 0] \<noteq> 1"
proof -
  have l: "load [Mat [[1, 0]], Mat [[0, 0]], Vec [0]]
             (decoder \<lparr>encoder = 0, decoder = 1, encoder_bias = 2\<rparr>)
           = Some (Mat [[0, 0]])"
    by (simp add: load_def)
  show ?thesis
    unfolding untied_get_learned_dict_value [OF l]
    by (simp add: l2_norm_def renorm_row_zero torch_l2_norm_def clamp_min_def
        float32_overflow_def)
qed

text \<open>
  Claim C10. For every weight matrix, \<open>get_learned_dict\<close> of the untied and of the tied
  variant (and the renormalization of \<open>TiedSAE.encode\<close> in \<open>norm_encoder\<close> mode) returns
  a result: no divisor is zero, since every divisor is at least \<open>1e-8\<close>. A row of the
  weight that is all-zero is returned as an all-zero row.
\<close>

theorem get_learned_dict_total:
  assumes "load h (decoder u) = Some (Mat m)" and "load h (t_encoder t) = Some (Mat m')"
  shows "(\<exists>r h'. untied_get_learned_dict u h = Some (r, u, h')
            \<and> load h' r = Some (Mat (map renorm_row m)))
       \<and> (\<exists>r h'. tied_get_learned_dict t h = Some (r, t, h')
            \<and> load h' r = Some (Mat (map renorm_row m')))
       \<and> (norm_encoder t \<longrightarrow>
            (\<exists>r h'. tied_encode_weight t h = Some (r, t, h')
               \<and> load h' r = Some (Mat (map renorm_row m'))))
       \<and> (\<forall>row \<in> set m \<union> set m'.
             1 / 10 ^ 8 \<le> max (1 / 10 ^ 8) (l2_norm row)
             \<and> ((\<forall>x \<in> set row. x = 0) \<longrightarrow> renorm_row row = row))"
proof -
  have 1: "\<exists>r h'. untied_get_learned_dict u h = Some (r, u, h')
            \<and> load h' r = Some (Mat (map renorm_row m))"
    unfolding untied_get_learned_dict_value [OF assms(1)] by (simp add: load_appended)
  have 2: "\<exists>r h'. tied_get_learned_dict t h = Some (r, t, h')
            \<and> load h' r = Some (Mat (map renorm_row m'))"
    unfolding tied_get_learned_dict_value [OF assms(2)] by (simp add: load_appended)
  have 3: "norm_encoder t \<Longrightarrow> \<exists>r h'. tied_encode_weight t h = Some (r, t, h')
            \<and> load h' r = Some (Mat (map renorm_row m'))"
    by (simp add: tied_encode_weight_value [OF assms(2)] load_appended)
  have 4: "\<forall>row \<in> set m \<union> set m'.
             1 / 10 ^ 8 \<le> max (1 / 10 ^ 8) (l2_norm row)
             \<and> ((\<forall>x \<in> set row. x = 0) \<longrightarrow> renorm_row row = row)"
    using renorm_row_zero by simp
  show ?thesis using 1 2 3 4 by blast
qed

theorem get_learned_dict_total_witness:
  "load [Mat [[0, 0], [3, 4]], Vec [0, 0]] 0 = Some (Mat [[0, 0], [3, 4]])
   \<and> (\<exists>r h'. untied_get_learned_dict \<lparr>encoder = 0, decoder = 0, encoder_bias = 1\<rparr>
                 [Mat [[0, 0], [3, 4]], Vec [0, 0]]
               = Some (r, \<lparr>encoder = 0, decoder = 0, encoder_bias = 1\<rparr>, h')
           \<and> load h' r = Some (Mat (map renorm_row [[0, 0], [3, 4]])))
   \<and> (\<exists>r h'. tied_get_learned_dict \<lparr>t_encoder = 0, t_encoder_bias = 1, norm_encoder = True\<rparr>
                 [Mat [[0, 0], [3, 4]], Vec [0, 0]]
               = Some (r, \<lparr>t_encoder = 0, t_encoder_bias = 1, norm_encoder = True\<rparr>, h')
           \<and> load h' r = Some (Mat (map renorm_row [[0, 0], [3, 4]])))
   \<and> (\<exists>r h'. tied_encode_weight \<lparr>t_encoder = 0, t_encoder_bias = 1, norm_encoder = True\<rparr>
                 [Mat [[0, 0], [3, 4]], Vec [0, 0]]
               = Some (r, \<lparr>t_encoder = 0, t_encoder_bias = 1, norm_encoder = True\<rparr>, h')
           \<and> load h' r = Some (Mat (map renorm_row [[0, 0], [3, 4]])))
   \<and> renorm_row [0, 0] = [0, 0]"
proof -
  have l1: "load [Mat [[0, 0], [3, 4]], Vec [0, 0]]
              (decoder \<lparr>encoder = 0, decoder = 0, encoder_bias = 1\<rparr>)
            = Some (Mat [[0, 0], [3, 4]])"
    by (simp add: load_def)
  have l2: "load [Mat [[0, 0], [3, 4]], Vec [0, 0]]
              (t_encoder \<lparr>t_encoder = 0, t_encoder_bias = 1, norm_encoder = True\<rparr>)
            = Some (Mat [[0, 0], [3, 4]])"
    by (simp add: load_def)
  have z: "renorm_row [0, 0] = [0, 0]"
    by (simp add: renorm_row_zero)
  show ?thesis
    using get_learned_dict_total [OF l1 l2] l1 z by simp
qed

section \<open>Properties of the mean max cosine similarity\<close>

lemma np_max_Max: "xs \<noteq> [] \<Longrightarrow> np_max xs = Max (set xs)"
  by (cases xs) (simp_all add: np_max_def flip: Max.set_eq_fold)

lemma l2_norm_0_2: "l2_norm [0, 2] = 2"
proof -
  have "l2_norm [0, 2] = sqrt (2 * 2)" by (simp add: l2_norm_def)
  then show ?thesis by (simp only: real_sqrt_abs2 abs_numeral)
qed

lemma l2_norm_unit: "l2_norm [1, 0] = 1" "l2_norm [0, 1] = 1"
  by (simp_all add: l2_norm_def)

text \<open>
  Claim C7. For every ground-truth feature matrix and every learned dictionary, both with
  nonzero rows, the mean max cosine similarity of a row permutation of the learned
  dictionary is that of the learned dictionary (the same number, or the same exception).
\<close>

theorem mean_max_cosine_similarity_permutation:
  assumes "mset ld' = mset ld"
    and "\<forall>row \<in> set ld. \<exists>x \<in> set row. x \<noteq> 0"
    and "\<forall>row \<in> set gt. \<exists>x \<in> set row. x \<noteq> 0"
  shows "mean_max_cosine_similarity gt ld' = mean_max_cosine_similarity gt ld"
proof -
  have s: "set ld' = set ld" using assms(1) by (metis set_mset_mset)
  have e: "ld' = [] \<longleftrightarrow> ld = []" using s by auto
  have ok: "list_all (\<lambda>u. list_all (\<lambda>v. length u = length v) ld') gt
          = list_all (\<lambda>u. list_all (\<lambda>v. length u = length v) ld) gt"
    using s by (simp add: list_all_iff)
  have m: "np_max (map (dot u) (np_normalize ld')) = np_max (map (dot u) (np_normalize ld))"
    if "ld \<noteq> []" for u
    using s e that by (simp add: np_max_Max np_normalize_def image_image)
  show ?thesis
  proof (cases "ld = []")
    case True
    then have "ld' = []" using e by simp
    then show ?thesis using True by simp
  next
    case False
    then have ne: "ld' \<noteq> []" using e by simp
    show ?thesis
      unfolding mean_max_cosine_similarity_def cosine_sim_def Let_def ok
      using False ne by (simp add: m [OF False] comp_def)
  qed
qed

theorem mean_max_cosine_similarity_permutation_witness:
  "mset [[0, 2], [3, 4]] = mset [[3, 4], [0, 2 :: real]]
   \<and> mean_max_cosine_similarity [[1, 0], [0, 1]] [[0, 2], [3, 4]]
       = mean_max_cosine_similarity [[1, 0], [0, 1]] [[3, 4], [0, 2]]
   \<and> mean_max_cosine_similarity [[1, 0], [0, 1]] [[3, 4], [0, 2]] = Inr (Finite (4 / 5))"
proof -
  have p: "mset [[0, 2], [3, 4]] = mset [[3, 4], [0, 2 :: real]]" by simp
  have l: "\<forall>row \<in> set [[3, 4], [0, 2 :: real]]. \<exists>x \<in> set row. x \<noteq> 0" by simp
  have g: "\<forall>row \<in> set [[1, 0], [0, 1 :: real]]. \<exists>x \<in> set row. x \<noteq> 0" by simp
  have v: "mean_max_cosine_similarity [[1, 0], [0, 1]] [[3, 4], [0, 2]] = Inr (Finite (4 / 5))"
    by (simp add: mean_max_cosine_similarity_def cosine_sim_def np_normalize_def Let_def
        l2_norm_3_4 l2_norm_0_2 l2_norm_unit dot_def np_mean_def np_max_def)
  show ?thesis
    using mean_max_cosine_similarity_permutation [OF p l g] p l g v by blast
qed

section \<open>Properties of the dataset generators\<close>

lemma sum_list_scale: "sum_list (map (\<lambda>p. p * (c::real)) xs) = sum_list xs * c"
  by (induction xs) (simp_all add: distrib_right)

lemma where_le_row_clip:
  assumes "\<forall>t \<in> set trow. t < (1::real)"
  shows "map2 (\<lambda>(t, p) v. if t \<le> p then v else (0::real)) (zip trow probs) vrow
       = map2 (\<lambda>(t, p) v. if t \<le> p then v else 0) (zip trow (map (min 1) probs)) vrow"
  using assms
proof (induction trow arbitrary: probs vrow)
  case Nil
  then show ?case by simp
next
  case (Cons t trow)
  show ?case
  proof (cases probs)
    case Nil
    then show ?thesis by simp
  next
    case pc: (Cons p ps)
    show ?thesis
    proof (cases vrow)
      case Nil
      then show ?thesis by simp
    next
      case vc: (Cons v vs)
      have "t < 1" using Cons.prems by simp
      then have "t \<le> p \<longleftrightarrow> t \<le> min 1 p" by (auto simp: min_def)
      then show ?thesis
        using Cons.IH [of ps vs] Cons.prems pc vc by simp
    qed
  qed
qed

lemma where_le_clip:
  assumes "\<forall>trow \<in> set dataset_thresh. \<forall>t \<in> set trow. t < 1"
  shows "where_le dataset_thresh probs dataset_values
       = where_le dataset_thresh (map (min 1) probs) dataset_values"
  using assms
proof (induction dataset_thresh arbitrary: dataset_values)
  case Nil
  then show ?case by (simp add: where_le_def)
next
  case (Cons trow rest)
  show ?case
  proof (cases dataset_values)
    case Nil
    then show ?thesis by (simp add: where_le_def)
  next
    case (Cons vrow vs)
    have "\<forall>t \<in> set trow. t < 1" using Cons.prems by simp
    from where_le_row_clip [OF this, of probs vrow] Cons.IH [of vs] Cons.prems Cons
    show ?thesis by (simp add: where_le_def)
  qed
qed

text \<open>
  Claim C3, as amended. In \<open>generate_correlated_dataset\<close>, for CDF values in \<open>[0, 1]\<close>,
  nonnegative decay factors and a nonnegative \<open>frac_nonzero\<close>, with a nonzero mean of
  \<open>cdf * decay\<close>, every inclusion probability is at least 0 and at most \<open>frac_nonzero\<close>
  times the number of components, and their mean is \<open>frac_nonzero\<close>. A probability is not
  clipped at 1 before the comparison; against draws below 1 the comparison with the
  probability and the comparison with the clipped probability select the same entries.
\<close>

theorem scaled_component_probs_range:
  assumes len: "length cdf = length decay"
    and cdf: "\<forall>c \<in> set cdf. 0 \<le> c \<and> c \<le> 1"
    and decay: "\<forall>d \<in> set decay. 0 \<le> d"
    and frac: "0 \<le> frac_nonzero"
    and pos: "0 < sum_list (map2 (*) cdf decay)"
  shows "\<exists>probs. scaled_component_probs cdf decay frac_nonzero = Inr probs
           \<and> length probs = length cdf
           \<and> (\<forall>p \<in> set probs. 0 \<le> p \<and> p \<le> frac_nonzero * real (length cdf))
           \<and> sum_list probs / real (length cdf) = frac_nonzero
           \<and> ((\<forall>trow \<in> set dataset_thresh. \<forall>t \<in> set trow. t < 1) \<longrightarrow>
                where_le dataset_thresh probs dataset_values
                  = where_le dataset_thresh (map (min 1) probs) dataset_values)"
proof -
  define cp where "cp = map2 (*) cdf decay"
  define S where "S = sum_list cp"
  define n where "n = real (length cp)"
  have S: "0 < S" using pos by (simp add: S_def cp_def)
  have ne: "cp \<noteq> []" using S by (auto simp: S_def)
  have n: "0 < n" using ne by (simp add: n_def)
  have ln: "length cp = length cdf" using len by (simp add: cp_def)
  have nonneg: "\<forall>c \<in> set cp. 0 \<le> c"
    using cdf decay by (auto simp: cp_def dest!: set_zip_leftD set_zip_rightD
        elim!: in_set_zipE)
  have le: "\<forall>c \<in> set cp. c \<le> S"
    unfolding S_def using nonneg by (meson member_le_sum_list)
  have mean: "S / n \<noteq> 0" using S n by simp
  define k where "k = frac_nonzero / (S / n)"
  define probs where "probs = map (\<lambda>p. p * k) cp"
  have r: "scaled_component_probs cdf decay frac_nonzero = Inr probs"
    using len ne mean
    by (simp add: scaled_component_probs_def Let_def probs_def k_def cp_def [symmetric]
        S_def [symmetric] n_def [symmetric])
  have b: "0 \<le> p \<and> p \<le> frac_nonzero * n" if pm: "p \<in> set probs" for p
  proof -
    obtain c where c: "c \<in> set cp" and p: "p = c * k"
      using pm by (auto simp: probs_def)
    have c0: "0 \<le> c" and cS: "c \<le> S" using c nonneg le by auto
    have "p = (c / S) * (frac_nonzero * n)" using p S n by (simp add: k_def field_simps)
    moreover have "0 \<le> c / S" and "c / S \<le> 1" using c0 cS S by simp_all
    moreover have "0 \<le> frac_nonzero * n" using frac n by simp
    ultimately show ?thesis
      by (metis mult_left_le_one_le mult_nonneg_nonneg)
  qed
  have "sum_list probs = S * k"
    by (simp add: probs_def sum_list_scale S_def)
  then have sum: "sum_list probs / n = frac_nonzero"
    using S n by (simp add: k_def)
  have "length probs = length cdf" using ln by (simp add: probs_def)
  moreover have "\<forall>p \<in> set probs. 0 \<le> p \<and> p \<le> frac_nonzero * real (length cdf)"
    using b ln by (simp add: n_def)
  moreover have "sum_list probs / real (length cdf) = frac_nonzero"
    using sum ln by (simp add: n_def)
  ultimately show ?thesis
    using r where_le_clip by blast
qed

theorem scaled_component_probs_range_witness:
  "0 < sum_list (map2 (*) [9 / 10, 1 / 10, 1 / 5 :: real] [1, 1 / 2, 1 / 4])
   \<and> scaled_component_probs [9 / 10, 1 / 10, 1 / 5] [1, 1 / 2, 1 / 4] (1 / 3)
       = Inr [9 / 10, 1 / 20, 1 / 20]
   \<and> (\<exists>probs. scaled_component_probs [9 / 10, 1 / 10, 1 / 5] [1, 1 / 2, 1 / 4] (1 / 3)
                 = Inr probs
         \<and> length probs = 3
         \<and> list_all (\<lambda>p. 0 \<le> p \<and> p \<le> 1) probs
         \<and> sum_list probs / 3 = 1 / 3)"
proof -
  have 1: "length [9 / 10, 1 / 10, 1 / 5 :: real] = length [1, 1 / 2, 1 / 4 :: real]"
    by simp
  have 2: "\<forall>c \<in> set [9 / 10, 1 / 10, 1 / 5 :: real]. 0 \<le> c \<and> c \<le> 1" by simp
  have 3: "\<forall>d \<in> set [1, 1 / 2, 1 / 4 :: real]. 0 \<le> d" by simp
  have 4: "(0::real) \<le> 1 / 3" by simp
  have 5: "0 < sum_list (map2 (*) [9 / 10, 1 / 10, 1 / 5 :: real] [1, 1 / 2, 1 / 4])"
    by simp
  have v: "scaled_component_probs [9 / 10, 1 / 10, 1 / 5] [1, 1 / 2, 1 / 4] (1 / 3)
             = Inr [9 / 10, 1 / 20, 1 / 20]"
    by (simp add: scaled_component_probs_def Let_def)
  show ?thesis
    using scaled_component_probs_range [OF 1 2 3 4 5, of "[]" "[]"] 5 v by simp
qed

text \<open>
  Claim C3, as stated, fails: with three components, \<open>frac_nonzero = 2/3\<close> and decay 1/2,
  the first inclusion probability is 9/5, and that is the value the draws are compared
  with.
\<close>

theorem scaled_component_probs_counterexample:
  "scaled_component_probs [9 / 10, 1 / 10, 1 / 5] [1, 1 / 2, 1 / 4] (2 / 3)
     = Inr [9 / 5, 1 / 10, 1 / 10]
   \<and> \<not> (9 / 5 \<le> (1::real))"
  by (simp add: scaled_component_probs_def Let_def)

lemma fold_put_length:
  "length (fold (\<lambda>(i, j) m. m[i := (m ! i)[j := (1::real)]]) ps m) = length m"
  by (induction ps arbitrary: m) (auto split: prod.splits)

lemma fold_put_other:
  "i \<notin> fst ` set ps \<Longrightarrow>
   fold (\<lambda>(i, j) m. m[i := (m ! i)[j := (1::real)]]) ps m ! i = m ! i"
  by (induction ps arbitrary: m) (auto split: prod.splits)

lemma fold_put_hit:
  assumes "distinct (map fst ps)" and "k < length ps" and "fst (ps ! k) < length m"
  shows "fold (\<lambda>(i, j) m. m[i := (m ! i)[j := (1::real)]]) ps m ! fst (ps ! k)
           = (m ! fst (ps ! k))[snd (ps ! k) := 1]"
  using assms
proof (induction ps arbitrary: m k)
  case Nil
  then show ?case by simp
next
  case (Cons p ps)
  obtain i j where p: "p = (i, j)" by (cases p)
  show ?case
  proof (cases k)
    case 0
    have "i \<notin> fst ` set ps" using Cons.prems(1) p by auto
    then show ?thesis
      using 0 p Cons.prems(3) fold_put_other [of i ps "m[i := (m ! i)[j := 1]]"] by simp
  next
    case (Suc k')
    have k': "k' < length ps" using Cons.prems(2) Suc by simp
    have ne: "fst (ps ! k') \<noteq> i"
      using Cons.prems(1) p k' by (metis distinct.simps(2) fst_conv list.simps(9) nth_map
          nth_mem length_map)
    have "fold (\<lambda>(i, j) m. m[i := (m ! i)[j := (1::real)]]) ps (m[i := (m ! i)[j := 1]])
            ! fst (ps ! k')
          = ((m[i := (m ! i)[j := 1]]) ! fst (ps ! k'))[snd (ps ! k') := 1]"
      by (rule Cons.IH) (use Cons.prems Suc k' in auto)
    then show ?thesis using Suc p ne by simp
  qed
qed

lemma count_nonzero_put: "j < length row \<Longrightarrow> 0 < count_nonzero (row[j := 1])"
proof -
  assume "j < length row"
  then have "(1::real) \<in> set (row[j := 1])" by (simp add: set_update_memI)
  then have "filter (\<lambda>x. x \<noteq> 0) (row[j := 1]) \<noteq> []"
    by (metis (mono_tags, lifting) filter_empty_conv zero_neq_one)
  then show ?thesis by (simp add: count_nonzero_def)
qed

lemma where_le_shape:
  assumes "length probs = n"
  shows "length (where_le (torch_rand dt sz n) probs (torch_rand dv sz n)) = sz
       \<and> (\<forall>row \<in> set (where_le (torch_rand dt sz n) probs (torch_rand dv sz n)).
             length row = n)"
  using assms by (auto simp: where_le_def torch_rand_def set_zip)

lemma scaled_component_probs_length:
  "scaled_component_probs cdf decay fr = Inr probs \<Longrightarrow> length probs = length cdf"
  by (auto simp: scaled_component_probs_def Let_def split: if_splits)

text \<open>
  The correlated mode restores the invariant: with every \<open>random_index\<close> draw below the
  number of components, every row of the code matrix that \<open>generate_correlated_dataset\<close>
  returns has a nonzero entry.
\<close>

lemma generate_correlated_dataset_nonzero_rows:
  assumes res: "generate_correlated_dataset n sz cdf feats fr decay dt dv pick ds
                  = Inr (f, codes, data)"
    and pick: "\<forall>k. pick k < n"
  shows "length codes = sz \<and> (\<forall>row \<in> set codes. 0 < count_nonzero row)"
proof -
  obtain probs where probs: "scaled_component_probs cdf decay fr = Inr probs"
    and lc: "length cdf = n"
    using res by (auto simp: generate_correlated_dataset_def split: if_splits sum.splits)
  define codes0 where "codes0 = where_le (torch_rand dt sz n) probs (torch_rand dv sz n)"
  define zsi where "zsi = filter (\<lambda>i. count_nonzero (codes0 ! i) = 0) [0..<length codes0]"
  define ps where "ps = zip zsi (map pick [0..<length zsi])"
  have codes: "codes = fold (\<lambda>(i, j) m. m[i := (m ! i)[j := 1]]) ps codes0"
    using res probs
    by (auto simp: generate_correlated_dataset_def Let_def index_put_one_def codes0_def
        zsi_def ps_def split: if_splits)
  have lp: "length probs = n" using scaled_component_probs_length [OF probs] lc by simp
  have l0: "length codes0 = sz" and r0: "\<forall>row \<in> set codes0. length row = n"
    using where_le_shape [OF lp] unfolding codes0_def by blast+
  have lcodes: "length codes = sz" unfolding codes by (simp add: fold_put_length l0)
  have fst_ps: "map fst ps = zsi" by (simp add: ps_def)
  have dist: "distinct (map fst ps)" unfolding fst_ps by (simp add: zsi_def)
  have lps: "length ps = length zsi" by (simp add: ps_def)
  have "0 < count_nonzero (codes ! r)" if r: "r < sz" for r
  proof (cases "r \<in> set zsi")
    case True
    then obtain k where k: "k < length zsi" and rk: "zsi ! k = r"
      by (auto simp: in_set_conv_nth)
    have fk: "fst (ps ! k) = r" and sk: "snd (ps ! k) = pick k"
      using k rk by (simp_all add: ps_def)
    have "codes ! r = (codes0 ! r)[pick k := 1]"
      using fold_put_hit [OF dist, of k codes0] k lps fk sk r l0 unfolding codes by simp
    moreover have "pick k < length (codes0 ! r)" using pick r0 r l0 by simp
    ultimately show ?thesis by (simp add: count_nonzero_put)
  next
    case False
    then have "r \<notin> fst ` set ps" using fst_ps by (metis set_map)
    then have "codes ! r = codes0 ! r" unfolding codes by (rule fold_put_other)
    moreover have "count_nonzero (codes0 ! r) \<noteq> 0"
      using False r l0 by (simp add: zsi_def)
    ultimately show ?thesis by simp
  qed
  then have "\<forall>row \<in> set codes. 0 < count_nonzero row"
    using lcodes by (auto simp: in_set_conv_nth)
  then show ?thesis using lcodes by simp
qed

text \<open>
  Claim C2 at a failing input of the independent mode: two components with probabilities
  1/2 and 1/4, one sample whose two threshold draws are 9/10. The code row is all-zero,
  and \<open>generate_rand_dataset\<close> returns it as it is.
\<close>

theorem generate_rand_dataset_zero_row:
  "generate_rand_dataset 2 1 [1 / 2, 1 / 4] [[1, 0], [0, 1]]
       (\<lambda>i j. 9 / 10) (\<lambda>i j. 3 / 10) (\<lambda>i j. 1 / 2)
     = Inr ([[1, 0], [0, 1]], [[0, 0]], [[0, 0]])
   \<and> count_nonzero [0, 0] = 0"
  by (simp add: generate_rand_dataset_def Let_def torch_rand_def where_le_def weighted_sum_def
      matmul_def dot_def upt_rec count_nonzero_def)

section \<open>Properties of the configuration checks\<close>

lemma collect_py_pow:
  "b \<noteq> 0 \<Longrightarrow> collect (map (py_pow b) es) = Inr (map (\<lambda>e. b powi e) es)"
  by (induction es) (simp_all add: py_pow_def)

lemma load_autoencoder_printed:
  "set (fst st) \<subseteq> set (fst (load_autoencoder d l1s dss ae st))"
  by (cases st) (auto simp: load_autoencoder_def)

lemma fold_load_printed_mono:
  "set (fst st) \<subseteq> set (fst (fold (load_autoencoder d l1s dss) aes st))"
proof (induction aes arbitrary: st)
  case Nil
  then show ?case by simp
next
  case (Cons a aes)
  show ?case
    using load_autoencoder_printed [of st d l1s dss a]
      Cons.IH [of "load_autoencoder d l1s dss a st"] by auto
qed

lemma fold_load_mismatch:
  assumes "ae \<in> set aes" and "activation_size ae \<noteq> d"
  shows "Mismatch d (activation_size ae) \<in> set (fst (fold (load_autoencoder d l1s dss) aes st))"
  using assms(1)
proof (induction aes arbitrary: st)
  case Nil
  then show ?case by simp
next
  case (Cons a aes)
  show ?case
  proof (cases "a = ae")
    case True
    have "Mismatch d (activation_size ae) \<in> set (fst (load_autoencoder d l1s dss ae st))"
      using assms(2) by (cases st) (simp add: load_autoencoder_def)
    then show ?thesis
      using True fold_load_printed_mono [of "load_autoencoder d l1s dss ae st" d l1s dss aes]
      by auto
  next
    case False
    then have "ae \<in> set aes" using Cons.prems by simp
    then show ?thesis using Cons.IH by simp
  qed
qed

lemma grid_dim_update:
  assumes "grid_dim d g" and "activation_size ae = d"
  shows "grid_dim d (g[i := (g ! i)[j := ae]])"
proof (cases "i < length g")
  case True
  have gi: "g ! i \<in> set g" using True by simp
  have "\<forall>a \<in> set ((g ! i)[j := ae]). activation_size a = d"
    using assms gi set_update_subset_insert [of "g ! i" j ae]
    unfolding grid_dim_def by blast
  then show ?thesis
    using assms(1) set_update_subset_insert [of g i "(g ! i)[j := ae]"]
    unfolding grid_dim_def by blast
next
  case False
  then show ?thesis using assms(1) by (simp add: list_update_beyond)
qed

lemma load_autoencoder_grid:
  "grid_dim d (snd st) \<Longrightarrow> grid_dim d (snd (load_autoencoder d l1s dss ae st))"
  by (cases st) (auto simp: load_autoencoder_def intro: grid_dim_update)

lemma fold_load_grid:
  "grid_dim d (snd st) \<Longrightarrow> grid_dim d (snd (fold (load_autoencoder d l1s dss) aes st))"
  by (induction aes arbitrary: st) (simp_all add: load_autoencoder_grid)


text \<open>
  Claim C8, as amended. An unrecognized model name raises
  \<open>ValueError("Model name not recognised")\<close>. With a recognized name (and a nonzero L1 base
  and a positive dictionary ratio base) the run reaches the training loop, whatever the
  checkpoint holds: for every loaded autoencoder whose activation size differs from the
  activation dimension of the configuration a mismatch message is printed, that
  autoencoder is not put into the grid, and the run continues.
\<close>

theorem run_real_data_model_config_errors:
  assumes mk: "\<forall>d n l. activation_size (new_autoencoder d n l) = d"
  shows "(model_name cfg \<notin> set [''gpt2'', ''EleutherAI/pythia-70m-deduped'', ''nanoGPT'']
            \<longrightarrow> run_real_data_model cfg cached new_autoencoder pickled
                  = Inl (ValueError ''Model name not recognised''))
       \<and> (model_name cfg \<in> set [''gpt2'', ''EleutherAI/pythia-70m-deduped'', ''nanoGPT'']
            \<and> l1_exp_base cfg \<noteq> 0 \<and> 0 < dict_ratio_exp_base cfg
            \<longrightarrow> (\<exists>printed grid.
                   run_real_data_model cfg cached new_autoencoder pickled = Inr (printed, grid)))
       \<and> (\<forall>printed grid.
             run_real_data_model cfg cached new_autoencoder pickled = Inr (printed, grid)
             \<longrightarrow> (\<forall>row \<in> set grid. \<forall>a \<in> set row.
                    activation_size a = (case cached of None \<Rightarrow> activation_dim cfg | Some d \<Rightarrow> d))
               \<and> (load_autoencoders cfg \<noteq> [] \<longrightarrow>
                    (\<forall>ae \<in> set (concat pickled).
                       activation_size ae \<noteq> (case cached of None \<Rightarrow> activation_dim cfg | Some d \<Rightarrow> d)
                       \<longrightarrow> Mismatch (case cached of None \<Rightarrow> activation_dim cfg | Some d \<Rightarrow> d)
                             (activation_size ae) \<in> set printed)))"
proof -
  define d where "d = (case cached of None \<Rightarrow> activation_dim cfg | Some d \<Rightarrow> d)"
  have 1: "run_real_data_model cfg cached new_autoencoder pickled
             = Inl (ValueError ''Model name not recognised'')"
    if "model_name cfg \<notin> set [''gpt2'', ''EleutherAI/pythia-70m-deduped'', ''nanoGPT'']"
    using that by (simp add: run_real_data_model_def select_model_def)
  have 2: "\<exists>printed grid.
             run_real_data_model cfg cached new_autoencoder pickled = Inr (printed, grid)"
    if n: "model_name cfg \<in> set [''gpt2'', ''EleutherAI/pythia-70m-deduped'', ''nanoGPT'']"
      and b: "l1_exp_base cfg \<noteq> 0" and r: "0 < dict_ratio_exp_base cfg"
  proof -
    obtain m where m: "select_model cfg = Inr m"
      using n by (auto simp: select_model_def)
    have r': "real_of_int (dict_ratio_exp_base cfg) \<noteq> 0" using r by simp
    have pos: "list_all (\<lambda>n_feats. 0 \<le> n_feats)
                 (map (\<lambda>ratio. py_int (real d * ratio))
                    (map (\<lambda>e. real_of_int (dict_ratio_exp_base cfg) powi e) es))" for es
      using r by (simp add: list_all_iff py_int_def)
    show ?thesis
      unfolding run_real_data_model_def m collect_py_pow [OF b] collect_py_pow [OF r']
      using pos by (simp add: Let_def d_def split: prod.split)
  qed
  have 3: "(\<forall>row \<in> set grid. \<forall>a \<in> set row. activation_size a = d)
           \<and> (load_autoencoders cfg \<noteq> [] \<longrightarrow>
                (\<forall>ae \<in> set (concat pickled). activation_size ae \<noteq> d
                   \<longrightarrow> Mismatch d (activation_size ae) \<in> set printed))"
    if res: "run_real_data_model cfg cached new_autoencoder pickled = Inr (printed, grid)"
    for printed grid
  proof -
    obtain m where m: "select_model cfg = Inr m"
      using res by (auto simp: run_real_data_model_def split: sum.splits)
    obtain l1_range where
      l1: "collect (map (py_pow (l1_exp_base cfg)) [l1_exp_low cfg .. l1_exp_high cfg - 1])
             = Inr l1_range"
      using res m by (auto simp: run_real_data_model_def Let_def split: sum.splits)
    obtain dict_ratios where
      dr: "collect (map (py_pow (real_of_int (dict_ratio_exp_base cfg)))
                      [dict_ratio_exp_low cfg .. dict_ratio_exp_high cfg - 1])
             = Inr dict_ratios"
      using res m l1 by (auto simp: run_real_data_model_def Let_def split: sum.splits)
    define dict_sizes where "dict_sizes = map (\<lambda>ratio. py_int (real d * ratio)) dict_ratios"
    have pg: "(printed, grid) =
            (if load_autoencoders cfg = []
             then ([], map (\<lambda>l1. map (\<lambda>n. new_autoencoder d (nat n) l1) dict_sizes) l1_range)
             else fold (load_autoencoder d l1_range dict_sizes) (concat pickled)
                    ([], map (\<lambda>l1. map (\<lambda>n. new_autoencoder d (nat n) l1) dict_sizes) l1_range))"
      using res m l1 dr
      by (auto simp: run_real_data_model_def Let_def d_def dict_sizes_def comp_def
          split: if_splits)
    have g0: "grid_dim d (map (\<lambda>l1. map (\<lambda>n. new_autoencoder d (nat n) l1) dict_sizes) l1_range)"
      using mk by (auto simp: grid_dim_def)
    show ?thesis
    proof (cases "load_autoencoders cfg = []")
      case True
      then show ?thesis using pg g0 by (simp add: grid_dim_def)
    next
      case False
      let ?st = "fold (load_autoencoder d l1_range dict_sizes) (concat pickled)
                    ([], map (\<lambda>l1. map (\<lambda>n. new_autoencoder d (nat n) l1) dict_sizes) l1_range)"
      have p: "printed = fst ?st" and g: "grid = snd ?st"
        using pg False by (simp_all add: prod_eq_iff)
      have "grid_dim d grid"
        unfolding g by (rule fold_load_grid) (simp add: g0)
      moreover have "\<forall>ae \<in> set (concat pickled). activation_size ae \<noteq> d
                   \<longrightarrow> Mismatch d (activation_size ae) \<in> set printed"
        unfolding p using fold_load_mismatch by blast
      ultimately show ?thesis by (simp add: grid_dim_def)
    qed
  qed
  show ?thesis
    unfolding d_def [symmetric] using 1 2 3 by blast
qed


theorem run_real_data_model_config_errors_witness:
  "run_real_data_model (example_config\<lparr>model_name := ''llama''\<rparr>) None initial_autoencoder
       [[initial_autoencoder 2 2 1]]
     = Inl (ValueError ''Model name not recognised'')
   \<and> (\<exists>printed grid.
         run_real_data_model example_config None initial_autoencoder [[initial_autoencoder 2 2 1]]
           = Inr (printed, grid)
         \<and> Mismatch 1 2 \<in> set printed
         \<and> list_all (list_all (\<lambda>a. activation_size a = 1)) grid)"
proof -
  have mk: "\<forall>d n l. activation_size (initial_autoencoder d n l) = d"
    by (simp add: initial_autoencoder_def)
  have bad: "model_name (example_config\<lparr>model_name := ''llama''\<rparr>)
               \<notin> set [''gpt2'', ''EleutherAI/pythia-70m-deduped'', ''nanoGPT'']"
    by (simp add: example_config_def)
  have ok: "model_name example_config
              \<in> set [''gpt2'', ''EleutherAI/pythia-70m-deduped'', ''nanoGPT'']
            \<and> l1_exp_base example_config \<noteq> 0 \<and> 0 < dict_ratio_exp_base example_config"
    by (simp add: example_config_def)
  have l: "load_autoencoders example_config \<noteq> []"
    by (simp add: example_config_def)
  have a: "initial_autoencoder 2 2 1 \<in> set (concat [[initial_autoencoder 2 2 1]])
           \<and> activation_size (initial_autoencoder 2 2 1) = 2
           \<and> (case None of None \<Rightarrow> activation_dim example_config | Some d \<Rightarrow> d) = 1"
    by (simp add: initial_autoencoder_def example_config_def)
  note t1 = run_real_data_model_config_errors
    [OF mk, of "example_config\<lparr>model_name := ''llama''\<rparr>" None "[[initial_autoencoder 2 2 1]]"]
  note t2 = run_real_data_model_config_errors
    [OF mk, of example_config None "[[initial_autoencoder 2 2 1]]"]
  have 1: "run_real_data_model (example_config\<lparr>model_name := ''llama''\<rparr>) None
             initial_autoencoder [[initial_autoencoder 2 2 1]]
           = Inl (ValueError ''Model name not recognised'')"
    using t1 bad by blast
  obtain printed grid where
    r: "run_real_data_model example_config None initial_autoencoder [[initial_autoencoder 2 2 1]]
          = Inr (printed, grid)"
    using t2 ok by blast
  have g: "\<forall>row \<in> set grid. \<forall>a \<in> set row. activation_size a = 1"
    using t2 r a by auto
  have "Mismatch 1 (activation_size (initial_autoencoder 2 2 1)) \<in> set printed"
    using t2 r l a by (metis zero_neq_numeral numeral_eq_one_iff semiring_norm(85))
  then have m: "Mismatch 1 2 \<in> set printed" using a by simp
  show ?thesis
    using 1 r g m by (auto simp: list_all_iff)
qed

text \<open>
  Claim C8, as stated, fails on its second part: the checkpoint holds an autoencoder of
  activation size 2 while the configuration has activation dimension 1, and the run
  returns the grid with the freshly initialised autoencoder, having printed the mismatch.
\<close>

theorem run_real_data_model_mismatch_counterexample:
  "run_real_data_model example_config None initial_autoencoder [[initial_autoencoder 2 2 1]]
     = Inr ([Mismatch 1 2], [[initial_autoencoder 1 2 1]])"
  by (simp add: run_real_data_model_def select_model_def example_config_def Let_def
      py_pow_def py_int_def load_autoencoder_def initial_autoencoder_def upt_rec)

section \<open>Properties of the comparison with the larger dictionary\<close>

lemma l2_norm_35_45: "l2_norm [3 / 5, 4 / 5] = 1"
  by (simp add: l2_norm_def)

lemma example_match: "match_with_larger min_cost_assignment [[1, 0]] [[3 / 5, 4 / 5]] (1 / 2)
   = Inr (Finite (3 / 5), 0, [3 / 5])"
  by (simp add: match_with_larger_def Let_def cosine_similarity_def dot_def l2_norm_35_45
      l2_norm_unit min_cost_assignment_def assignments_def shape1_def assignment_cost_def
      np_mean_def)

lemma example_run: "run_mmcs_with_larger min_cost_assignment [[[[1, 0]], [[3 / 5, 4 / 5]]]] (1 / 2)
   = Inr \<lparr>av_mmcs_with_larger_dicts = [[Finite (3 / 5), Finite 0]],
          feats_above_threshold = [[0, 0]],
          full_max_cosine_sim_for_histograms = [[Some [3 / 5]]]\<rparr>"
  by (simp add: run_mmcs_with_larger_def Let_def mmcs_step_def get_item_def example_match set2_def
      numeral_2_eq_2)

lemma set2_other: "(l', k') \<noteq> (l, k) \<Longrightarrow> set2 m l k v ! l' ! k' = m ! l' ! k'"
  by (cases "l < length m"; cases "l' = l") (auto simp: set2_def list_update_beyond)

lemma set2_same: "l < length m \<Longrightarrow> k < length (m ! l) \<Longrightarrow> set2 m l k v ! l ! k = v"
  by (simp add: set2_def)

lemma set2_length: "length (set2 m l k v) = length m"
  by (simp add: set2_def)

lemma set2_rows:
  assumes "\<forall>r \<in> set m. length r = n" and "r \<in> set (set2 m l k v)"
  shows "length r = n"
proof (cases "l < length m")
  case True
  have "m ! l \<in> set m" using True by simp
  then have "length ((m ! l)[k := v]) = n" using assms(1) by simp
  then show ?thesis
    using assms set_update_subset_insert [of m l "(m ! l)[k := v]"] unfolding set2_def by blast
next
  case False
  then show ?thesis using assms by (simp add: set2_def list_update_beyond)
qed

lemma mmcs_step_skip: "mmcs_step lsa dicts n thr (l, n - 1) st = Inr st"
  by (simp add: mmcs_step_def)

lemma mmcs_step_write:
  assumes "mmcs_step lsa dicts n thr (l, k) st = Inr st'" and "k \<noteq> n - 1"
  shows "\<exists>m p mcs. match_with_larger lsa (dicts ! l ! k) (dicts ! l ! (k + 1)) thr = Inr (m, p, mcs)
           \<and> st' = st\<lparr>av_mmcs_with_larger_dicts := set2 (av_mmcs_with_larger_dicts st) l k m,
                       feats_above_threshold := set2 (feats_above_threshold st) l k p,
                       full_max_cosine_sim_for_histograms :=
                         set2 (full_max_cosine_sim_for_histograms st) l k (Some mcs)\<rparr>"
  using assms
  by (auto simp: mmcs_step_def get_item_def split: if_splits sum.splits)

lemma mmcs_step_shape:
  assumes "mmcs_step lsa dicts n thr (l, k) st = Inr st'" and "mmcs_shape nl n st"
  shows "mmcs_shape nl n st'"
proof (cases "k = n - 1")
  case True
  then show ?thesis using assms by (simp add: mmcs_step_def)
next
  case False
  from mmcs_step_write [OF assms(1) False] assms(2) show ?thesis
    by (auto simp: mmcs_shape_def set2_length intro: set2_rows)
qed

lemma mmcs_step_other:
  assumes "mmcs_step lsa dicts n thr (l, k) st = Inr st'" and "(l', k') \<noteq> (l, k) \<or> k = n - 1"
  shows "same_slot st' st l' k'"
proof (cases "k = n - 1")
  case True
  then show ?thesis using assms by (simp add: mmcs_step_def same_slot_def)
next
  case False
  then have ne: "(l', k') \<noteq> (l, k)" using assms(2) by simp
  from mmcs_step_write [OF assms(1) False] show ?thesis
    by (auto simp: same_slot_def set2_other [OF ne])
qed

lemma mmcs_step_slot:
  assumes "mmcs_step lsa dicts n thr (l, k) st = Inr st'" and "k \<noteq> n - 1"
    and "mmcs_shape nl n st" and "l < nl" and "k < n"
  shows "slot_written lsa dicts thr st' l k"
proof -
  have k1: "k < n - 1" using assms(2,5) by simp
  have a: "l < length (av_mmcs_with_larger_dicts st)"
          "k < length (av_mmcs_with_larger_dicts st ! l)"
          "l < length (feats_above_threshold st)"
          "k < length (feats_above_threshold st ! l)"
          "l < length (full_max_cosine_sim_for_histograms st)"
          "k < length (full_max_cosine_sim_for_histograms st ! l)"
    using assms(3,4,5) k1 by (auto simp: mmcs_shape_def)
  from mmcs_step_write [OF assms(1,2)] show ?thesis
    using a by (auto simp: slot_written_def set2_same)
qed

lemma slot_written_same:
  "same_slot st' st l k \<Longrightarrow> slot_written lsa dicts thr st l k \<Longrightarrow> slot_written lsa dicts thr st' l k"
  by (auto simp: same_slot_def slot_written_def)

lemma same_slot_trans: "same_slot c b l k \<Longrightarrow> same_slot b a l k \<Longrightarrow> same_slot c a l k"
  by (simp add: same_slot_def)

lemma fold_mmcs_step:
  assumes "fold_err (mmcs_step lsa dicts n thr) ps st = Inr st'"
    and "distinct ps" and "mmcs_shape nl n st" and "\<forall>(l, k) \<in> set ps. l < nl \<and> k < n"
  shows "mmcs_shape nl n st'
       \<and> (\<forall>l k. (l, k) \<in> set ps \<and> k \<noteq> n - 1 \<longrightarrow> slot_written lsa dicts thr st' l k)
       \<and> (\<forall>l k. (l, k) \<notin> set ps \<or> k = n - 1 \<longrightarrow> same_slot st' st l k)"
  using assms
proof (induction ps arbitrary: st)
  case Nil
  then show ?case by (simp add: same_slot_def)
next
  case (Cons a ps)
  obtain l0 k0 where a: "a = (l0, k0)" by (cases a)
  obtain st1 where s1: "mmcs_step lsa dicts n thr (l0, k0) st = Inr st1"
    and f: "fold_err (mmcs_step lsa dicts n thr) ps st1 = Inr st'"
    using Cons.prems(1) a by (auto split: sum.splits)
  have sh1: "mmcs_shape nl n st1" using mmcs_step_shape [OF s1 Cons.prems(3)] .
  have d: "distinct ps" and nin: "(l0, k0) \<notin> set ps" using Cons.prems(2) a by auto
  have b: "\<forall>(l, k) \<in> set ps. l < nl \<and> k < n" using Cons.prems(4) by auto
  have b0: "l0 < nl" "k0 < n" using Cons.prems(4) a by auto
  note IH = Cons.IH [OF f d sh1 b]
  have 1: "mmcs_shape nl n st'" using IH by blast
  have 2: "slot_written lsa dicts thr st' l k" if "(l, k) \<in> set (a # ps)" "k \<noteq> n - 1" for l k
  proof (cases "(l, k) \<in> set ps")
    case True
    then show ?thesis using IH that(2) by blast
  next
    case False
    then have e: "l = l0" "k = k0" using that(1) a by auto
    have "slot_written lsa dicts thr st1 l0 k0"
      using mmcs_step_slot [OF s1 _ Cons.prems(3) b0] that(2) e by simp
    moreover have "same_slot st' st1 l0 k0" using IH nin by blast
    ultimately show ?thesis using e slot_written_same by blast
  qed
  have 3: "same_slot st' st l k" if "(l, k) \<notin> set (a # ps) \<or> k = n - 1" for l k
  proof -
    have "same_slot st' st1 l k" using IH that by auto
    moreover have "same_slot st1 st l k"
    proof (cases "k = n - 1")
      case True
      show ?thesis
      proof (cases "k0 = n - 1")
        case True
        then show ?thesis using s1 by (simp add: mmcs_step_def same_slot_def)
      next
        case False
        then have "(l, k) \<noteq> (l0, k0)" using True by auto
        then show ?thesis using mmcs_step_other [OF s1] by blast
      qed
    next
      case False
      then have "(l, k) \<noteq> (l0, k0)" using that a by auto
      then show ?thesis using mmcs_step_other [OF s1] by blast
    qed
    ultimately show ?thesis using same_slot_trans by blast
  qed
  show ?case using 1 2 3 by blast
qed











lemma init_shape:
  "mmcs_shape nl n \<lparr>av_mmcs_with_larger_dicts = replicate nl (replicate n (Finite 0)),
                    feats_above_threshold = replicate nl (replicate n 0),
                    full_max_cosine_sim_for_histograms = replicate nl (replicate (n - 1) None)\<rparr>"
  by (simp add: mmcs_shape_def)

text \<open>
  Claim C6. In the result of \<open>run_mmcs_with_larger\<close>, for every L1 index and every
  dictionary-size index \<open>k\<close> except the last, the slot \<open>(l1_ndx, k)\<close> of the three outputs
  holds the result of matching the dictionary at size index \<open>k\<close> with the one at size
  index \<open>k + 1\<close> of the same L1 index. The slot of the last size index keeps its initial
  value 0 in the two matrices, and the histogram array has no column for it.
\<close>

theorem run_mmcs_with_larger_adjacent:
  assumes res: "run_mmcs_with_larger lsa learned_dicts threshold = Inr st"
    and l: "l1_ndx < length learned_dicts"
  shows "(\<forall>k. k + 1 < length (hd learned_dicts) \<longrightarrow>
            (\<exists>m p mcs.
               match_with_larger lsa (learned_dicts ! l1_ndx ! k) (learned_dicts ! l1_ndx ! (k + 1))
                 threshold = Inr (m, p, mcs)
               \<and> av_mmcs_with_larger_dicts st ! l1_ndx ! k = m
               \<and> feats_above_threshold st ! l1_ndx ! k = p
               \<and> full_max_cosine_sim_for_histograms st ! l1_ndx ! k = Some mcs))
       \<and> av_mmcs_with_larger_dicts st ! l1_ndx ! (length (hd learned_dicts) - 1) = Finite 0
       \<and> feats_above_threshold st ! l1_ndx ! (length (hd learned_dicts) - 1) = 0
       \<and> length (av_mmcs_with_larger_dicts st ! l1_ndx) = length (hd learned_dicts)
       \<and> length (feats_above_threshold st ! l1_ndx) = length (hd learned_dicts)
       \<and> length (full_max_cosine_sim_for_histograms st ! l1_ndx) = length (hd learned_dicts) - 1"
proof -
  define nl where "nl = length learned_dicts"
  define n where "n = length (hd learned_dicts)"
  define st0 where "st0 = \<lparr>av_mmcs_with_larger_dicts = replicate nl (replicate n (Finite 0)),
                    feats_above_threshold = replicate nl (replicate n 0),
                    full_max_cosine_sim_for_histograms = replicate nl (replicate (n - 1) None)\<rparr>"
  have ne: "learned_dicts \<noteq> []" using l by auto
  have n: "0 < n" using res ne
    by (cases learned_dicts) (auto simp: run_mmcs_with_larger_def Let_def n_def split: if_splits)
  have f: "fold_err (mmcs_step lsa learned_dicts n threshold)
             (List.product [0..<nl] [0..<n]) st0 = Inr st"
    using res ne n
    by (cases learned_dicts)
      (auto simp: run_mmcs_with_larger_def Let_def n_def nl_def st0_def split: if_splits)
  have d: "distinct (List.product [0..<nl] [0..<n])" by (simp add: distinct_product)
  have b: "\<forall>(l, k) \<in> set (List.product [0..<nl] [0..<n]). l < nl \<and> k < n" by auto
  have sh0: "mmcs_shape nl n st0" unfolding st0_def by (rule init_shape)
  note inv = fold_mmcs_step [OF f d sh0 b]
  have l': "l1_ndx < nl" using l by (simp add: nl_def)
  have sh: "mmcs_shape nl n st" using inv by blast
  have 1: "slot_written lsa learned_dicts threshold st l1_ndx k" if "k + 1 < n" for k
  proof -
    have "(l1_ndx, k) \<in> set (List.product [0..<nl] [0..<n])" using l' that by simp
    moreover have "k \<noteq> n - 1" using that by simp
    ultimately show ?thesis using inv by blast
  qed
  have "same_slot st st0 l1_ndx (n - 1)" using inv by blast
  then have 2: "av_mmcs_with_larger_dicts st ! l1_ndx ! (n - 1) = Finite 0"
    and 3: "feats_above_threshold st ! l1_ndx ! (n - 1) = 0"
    using l' n by (simp_all add: same_slot_def st0_def)
  have 4: "length (av_mmcs_with_larger_dicts st ! l1_ndx) = n"
    "length (feats_above_threshold st ! l1_ndx) = n"
    "length (full_max_cosine_sim_for_histograms st ! l1_ndx) = n - 1"
    using sh l' by (auto simp: mmcs_shape_def)
  show ?thesis
    unfolding n_def [symmetric] using 1 2 3 4 by (auto simp: slot_written_def)
qed

lemma fold_err_returns:
  assumes "\<forall>x \<in> set xs. \<forall>s. P s \<longrightarrow> (\<exists>s'. f x s = Inr s' \<and> P s')" and "P s"
  shows "\<exists>s'. fold_err f xs s = Inr s'"
  using assms
proof (induction xs arbitrary: s)
  case Nil
  then show ?case by simp
next
  case (Cons x xs)
  then obtain s1 where s1: "f x s = Inr s1" "P s1" by auto
  have "\<exists>s'. fold_err f xs s1 = Inr s'"
    by (rule Cons.IH) (use Cons.prems s1 in auto)
  then show ?case using s1 by simp
qed

lemma run_mmcs_with_larger_returns:
  assumes ne: "learned_dicts \<noteq> []"
    and rect: "\<forall>row \<in> set learned_dicts. length row = length (hd learned_dicts)"
    and n: "0 < length (hd learned_dicts)"
    and rows: "\<forall>row \<in> set learned_dicts. \<forall>D \<in> set row. D \<noteq> []"
    and dims: "\<forall>row \<in> set learned_dicts. \<forall>D \<in> set row. \<forall>D' \<in> set row.
                 \<forall>u \<in> set D. \<forall>v \<in> set D'. length u = length v"
  shows "\<exists>st. run_mmcs_with_larger lsa learned_dicts threshold = Inr st"
proof -
  define nl where "nl = length learned_dicts"
  define n where "n = length (hd learned_dicts)"
  have step: "\<exists>s'. mmcs_step lsa learned_dicts n threshold x s = Inr s' \<and> True"
    if x: "x \<in> set (List.product [0..<nl] [0..<n])" for x s
  proof -
    obtain l k where lk: "x = (l, k)" by (cases x)
    have l: "l < nl" and k: "k < n" using x lk by auto
    show ?thesis
    proof (cases "k = n - 1")
      case True
      then show ?thesis by (simp add: lk mmcs_step_def)
    next
      case False
      then have k1: "k + 1 < n" using k by simp
      have row: "learned_dicts ! l \<in> set learned_dicts" using l by (simp add: nl_def)
      then have len: "length (learned_dicts ! l) = n" using rect by (simp add: n_def)
      have a: "learned_dicts ! l ! k \<in> set (learned_dicts ! l)"
        and b: "learned_dicts ! l ! (k + 1) \<in> set (learned_dicts ! l)"
        using len k k1 by simp_all
      have s: "learned_dicts ! l ! k \<noteq> []" using rows row a by blast
      have "\<forall>u \<in> set (learned_dicts ! l ! k). \<forall>v \<in> set (learned_dicts ! l ! (k + 1)).
              length u = length v"
        using dims row a b by blast
      then have ok: "list_all (\<lambda>u. list_all (\<lambda>v. length u = length v)
                       (learned_dicts ! l ! (k + 1))) (learned_dicts ! l ! k)"
        unfolding list_all_iff by blast
      obtain r where "match_with_larger lsa (learned_dicts ! l ! k) (learned_dicts ! l ! (k + 1))
                        threshold = Inr r"
        using ok s by (simp add: match_with_larger_def Let_def)
      then show ?thesis
        using False len k k1 by (cases r) (simp add: lk mmcs_step_def get_item_def)
    qed
  qed
  have "\<exists>s'. fold_err (mmcs_step lsa learned_dicts n threshold)
               (List.product [0..<nl] [0..<n]) s = Inr s'" for s
    by (rule fold_err_returns [where P = "\<lambda>_. True"]) (use step in auto)
  then show ?thesis
    using ne n by (cases learned_dicts) (simp_all add: run_mmcs_with_larger_def Let_def nl_def n_def)
qed



theorem run_mmcs_with_larger_adjacent_witness:
  "\<exists>st. run_mmcs_with_larger min_cost_assignment [[[[1, 0]], [[3 / 5, 4 / 5]]]] (1 / 2) = Inr st
     \<and> (\<exists>m p mcs.
          match_with_larger min_cost_assignment [[1, 0]] [[3 / 5, 4 / 5]] (1 / 2)
            = Inr (m, p, mcs)
          \<and> av_mmcs_with_larger_dicts st ! 0 ! 0 = m
          \<and> feats_above_threshold st ! 0 ! 0 = p
          \<and> full_max_cosine_sim_for_histograms st ! 0 ! 0 = Some mcs)
     \<and> av_mmcs_with_larger_dicts st ! 0 ! 1 = Finite 0
     \<and> feats_above_threshold st ! 0 ! 1 = 0
     \<and> length (full_max_cosine_sim_for_histograms st ! 0) = 1"
proof -
  have l: "0 < length [[[[1, 0]], [[3 / 5, 4 / 5 :: real]]]]" by simp
  show ?thesis
    using run_mmcs_with_larger_adjacent [OF example_run l] example_run by simp
qed



text \<open>
  Claim C5 at a failing input: one L1 coefficient, the dictionaries \<open>[[1, 0]]\<close> and
  \<open>[[3/5, 4/5]]\<close>, threshold 1/2. The matched pair has cosine similarity 3/5, above the
  threshold that was passed, and the reported percentage is 0: it is the percentage above
  0.9.
\<close>

theorem run_mmcs_with_larger_threshold_ignored:
  "run_mmcs_with_larger min_cost_assignment [[[[1, 0]], [[3 / 5, 4 / 5]]]] (1 / 2)
     = Inr \<lparr>av_mmcs_with_larger_dicts = [[Finite (3 / 5), Finite 0]],
            feats_above_threshold = [[0, 0]],
            full_max_cosine_sim_for_histograms = [[Some [3 / 5]]]\<rparr>
   \<and> (1 / 2 :: real) < 3 / 5"
  using example_run by simp

section \<open>Properties of the forward pass and of the training step\<close>

lemma foldr_max_length_rect:
  "\<forall>row \<in> set w. length row = n \<Longrightarrow>
   foldr (\<lambda>xs. max (length xs)) w 0 = (if w = [] then 0 else n)"
  by (induction w) auto

lemma length_transpose_rect:
  assumes "w \<noteq> []" and "\<forall>row \<in> set w. length row = n"
  shows "length (transpose w) = n"
  using assms foldr_max_length_rect [of w n] by (simp add: length_transpose)

lemma nth_transpose_rect:
  assumes "w \<noteq> []" and "\<forall>row \<in> set w. length row = n" and "j < n"
  shows "transpose w ! j = map (\<lambda>row. row ! j) w"
proof -
  have "filter (\<lambda>ys. j < length ys) w = w"
    using assms(2,3) by (simp add: filter_id_conv)
  then show ?thesis
    using nth_transpose [of j w] length_transpose_rect [OF assms(1,2)] assms(3) by simp
qed

lemma normalize_dim0_column:
  assumes ne: "w \<noteq> []" and rect: "\<forall>row \<in> set w. length row = n" and j: "j < n"
  shows "transpose (normalize_dim0 w) ! j
       = map (\<lambda>x. div_norm x (clamp_min (1 / 10 ^ 12) (torch_l2_norm (transpose w ! j))))
           (transpose w ! j)"
proof -
  define norms where "norms = map torch_l2_norm (transpose w)"
  have ln: "length norms = n" by (simp add: norms_def length_transpose_rect [OF ne rect])
  have nj: "norms ! j = torch_l2_norm (transpose w ! j)"
    using j by (simp add: norms_def length_transpose_rect [OF ne rect])
  define w' where
    "w' = map (\<lambda>row. map2 (\<lambda>x n. div_norm x (clamp_min (1 / 10 ^ 12) n)) row norms) w"
  have w': "normalize_dim0 w = w'" by (simp add: normalize_dim0_def w'_def norms_def Let_def)
  have ne': "w' \<noteq> []" using ne by (simp add: w'_def)
  have rect': "\<forall>row \<in> set w'. length row = n" using rect ln by (auto simp: w'_def)
  have "transpose w' ! j = map (\<lambda>row. row ! j) w'"
    by (rule nth_transpose_rect [OF ne' rect' j])
  also have "\<dots> = map (\<lambda>row. div_norm (row ! j) (clamp_min (1 / 10 ^ 12) (norms ! j))) w"
    unfolding w'_def using rect ln j by (auto simp: comp_def)
  also have "\<dots> = map (\<lambda>x. div_norm x (clamp_min (1 / 10 ^ 12) (torch_l2_norm (transpose w ! j))))
                      (transpose w ! j)"
    unfolding nth_transpose_rect [OF ne rect j] nj by (simp add: comp_def)
  finally show ?thesis unfolding w' .
qed

lemma normalize_dim0_shape:
  assumes ne: "w \<noteq> []" and rect: "\<forall>row \<in> set w. length row = n"
  shows "normalize_dim0 w \<noteq> [] \<and> (\<forall>row \<in> set (normalize_dim0 w). length row = n)"
  using assms
  by (auto simp: normalize_dim0_def Let_def length_transpose_rect [OF ne rect])

lemma normalize_dim0_unit_column:
  assumes ne: "w \<noteq> []" and rect: "\<forall>row \<in> set w. length row = n" and j: "j < n"
    and lo: "1 / 10 ^ 12 \<le> l2_norm (transpose w ! j)"
    and hi: "l2_norm (transpose w ! j) \<le> 10 ^ 18"
  shows "l2_norm (transpose (normalize_dim0 w) ! j) = 1"
proof -
  define col where "col = transpose w ! j"
  have m: "max (1 / 10 ^ 12) (l2_norm col) = l2_norm col"
    using lo by (simp add: col_def max_def)
  have pos: "0 < l2_norm col"
    using lo unfolding col_def by (smt (verit) divide_pos_pos zero_less_power)
  have "clamp_min (1 / 10 ^ 12) (torch_l2_norm col) = Norm (l2_norm col)"
    unfolding torch_l2_norm_finite [OF hi [folded col_def]] clamp_min_def norm_val.case m ..
  then have "transpose (normalize_dim0 w) ! j = map (\<lambda>x. x / l2_norm col) col"
    unfolding normalize_dim0_column [OF ne rect j] col_def [symmetric]
    by (simp add: div_norm_def)
  then show ?thesis using pos by (simp add: l2_norm_scale)
qed

lemma map2_unit_norms:
  "length row = n \<Longrightarrow>
   map2 (\<lambda>x nv. div_norm x (clamp_min (1 / 10 ^ 12) nv)) row (replicate n (Norm 1)) = row"
proof (induction row arbitrary: n)
  case Nil
  then show ?case by simp
next
  case (Cons x row)
  then obtain k where k: "n = Suc k" "length row = k" by (cases n) auto
  show ?case
    using Cons.IH [OF k(2)] k(1) by (simp add: div_norm_def clamp_min_def)
qed

lemma normalize_dim0_of_unit:
  assumes ne: "w \<noteq> []" and rect: "\<forall>row \<in> set w. length row = n"
    and unit: "\<forall>j < n. l2_norm (transpose w ! j) = 1"
  shows "normalize_dim0 w = w"
proof -
  have "map torch_l2_norm (transpose w) = replicate n (Norm 1)"
  proof (rule nth_equalityI)
    show "length (map torch_l2_norm (transpose w)) = length (replicate n (Norm 1))"
      by (simp add: length_transpose_rect [OF ne rect])
  next
    fix j assume "j < length (map torch_l2_norm (transpose w))"
    then have j: "j < n" by (simp add: length_transpose_rect [OF ne rect])
    then have u: "l2_norm (transpose w ! j) = 1" using unit by blast
    have "torch_l2_norm (transpose w ! j) = Norm (l2_norm (transpose w ! j))"
      by (rule torch_l2_norm_finite) (simp add: u)
    then show "map torch_l2_norm (transpose w) ! j = replicate n (Norm 1) ! j"
      using j u by (simp add: length_transpose_rect [OF ne rect])
  qed
  then have "normalize_dim0 w
               = map (\<lambda>row. map2 (\<lambda>x nv. div_norm x (clamp_min (1 / 10 ^ 12) nv)) row
                               (replicate n (Norm 1))) w"
    by (simp add: normalize_dim0_def Let_def)
  also have "\<dots> = w"
    by (rule map_idI) (use rect map2_unit_norms in blast)
  finally show ?thesis .
qed

lemma normalize_dim0_idempotent:
  assumes ne: "w \<noteq> []" and rect: "\<forall>row \<in> set w. length row = n"
    and range: "\<forall>j < n. 1 / 10 ^ 12 \<le> l2_norm (transpose w ! j)
                        \<and> l2_norm (transpose w ! j) \<le> 10 ^ 18"
  shows "normalize_dim0 (normalize_dim0 w) = normalize_dim0 w"
proof -
  have sh: "normalize_dim0 w \<noteq> []" "\<forall>row \<in> set (normalize_dim0 w). length row = n"
    using normalize_dim0_shape [OF ne rect] by blast+
  have "\<forall>j < n. l2_norm (transpose (normalize_dim0 w) ! j) = 1"
    using normalize_dim0_unit_column [OF ne rect] range by blast
  then show ?thesis by (rule normalize_dim0_of_unit [OF sh])
qed

lemma decoder_weight_forward:
  "decoder_weight (fst (forward self x)) = normalize_dim0 (decoder_weight self)"
  by (simp add: forward_def Let_def)

lemma forward_of_normalized:
  assumes "normalize_dim0 (normalize_dim0 (decoder_weight self)) = normalize_dim0 (decoder_weight self)"
  shows "forward (self\<lparr>decoder_weight := normalize_dim0 (decoder_weight self)\<rparr>) x = forward self x"
  using assms by (simp add: forward_def Let_def)

lemma decoder_weight_train_step:
  "decoder_weight (fst (train_step lr l1_alpha batch (ae, opt)))
     = map (map fst)
         (adam_mat lr (step opt + 1) (decoder_weight (fst (forward ae batch)))
            (decoder_grad batch (fst (snd (forward ae batch))) (snd (snd (forward ae batch))))
            (exp_avg_decoder opt) (exp_avg_sq_decoder opt))"
  by (simp add: train_step_def Let_def split: prod.split)

text \<open>
  Claim C1, as amended. In every forward pass of the module (every iteration of the
  training loop runs one, before its loss, its gradients and its optimizer step), every
  dictionary element (column of the decoder weight) whose L2 norm is at least \<open>1e-12\<close>
  and at most \<open>1e18\<close> is normalized to unit L2 norm, and the reconstruction is the product
  of the codes with the normalized weight. When every column is in that range, an
  iteration of the training loop gives the same module and optimizer state as the
  iteration started from the normalized weight.
\<close>

theorem forward_unit_norm:
  assumes ne: "decoder_weight self \<noteq> []"
    and rect: "\<forall>row \<in> set (decoder_weight self). length row = n_dict_components self"
  shows "(\<forall>j < n_dict_components self.
            1 / 10 ^ 12 \<le> l2_norm (transpose (decoder_weight self) ! j)
            \<and> l2_norm (transpose (decoder_weight self) ! j) \<le> 10 ^ 18 \<longrightarrow>
            l2_norm (transpose (decoder_weight (fst (forward self x))) ! j) = 1)
       \<and> fst (snd (forward self x))
           = map (\<lambda>cb. map (\<lambda>w. dot w cb) (decoder_weight (fst (forward self x))))
               (snd (snd (forward self x)))
       \<and> ((\<forall>j < n_dict_components self.
              1 / 10 ^ 12 \<le> l2_norm (transpose (decoder_weight self) ! j)
              \<and> l2_norm (transpose (decoder_weight self) ! j) \<le> 10 ^ 18) \<longrightarrow>
            train_step lr l1_alpha x
                (self\<lparr>decoder_weight := normalize_dim0 (decoder_weight self)\<rparr>, opt)
              = train_step lr l1_alpha x (self, opt))"
proof -
  have 1: "l2_norm (transpose (decoder_weight (fst (forward self x))) ! j) = 1"
    if "j < n_dict_components self"
      and "1 / 10 ^ 12 \<le> l2_norm (transpose (decoder_weight self) ! j)"
      and "l2_norm (transpose (decoder_weight self) ! j) \<le> 10 ^ 18" for j
    unfolding decoder_weight_forward
    by (rule normalize_dim0_unit_column [OF ne rect that])
  have 2: "fst (snd (forward self x))
             = map (\<lambda>cb. map (\<lambda>w. dot w cb) (decoder_weight (fst (forward self x))))
                 (snd (snd (forward self x)))"
    by (simp add: forward_def Let_def)
  have 3: "train_step lr l1_alpha x
               (self\<lparr>decoder_weight := normalize_dim0 (decoder_weight self)\<rparr>, opt)
             = train_step lr l1_alpha x (self, opt)"
    if "\<forall>j < n_dict_components self.
          1 / 10 ^ 12 \<le> l2_norm (transpose (decoder_weight self) ! j)
          \<and> l2_norm (transpose (decoder_weight self) ! j) \<le> 10 ^ 18"
  proof -
    have "forward (self\<lparr>decoder_weight := normalize_dim0 (decoder_weight self)\<rparr>) x
            = forward self x"
      by (rule forward_of_normalized) (rule normalize_dim0_idempotent [OF ne rect that])
    then show ?thesis by (simp add: train_step_def)
  qed
  show ?thesis using 1 2 3 by blast
qed

lemma example_forward:
  "forward example_autoencoder [[1 / 2]] = (example_autoencoder, [[1 / 4]], [[1 / 4]])"
  by (simp add: forward_def example_autoencoder_def Let_def dot_def normalize_dim0_def
      torch_l2_norm_def float32_overflow_def clamp_min_def div_norm_def l2_norm_def)

lemma adam_first_step:
  "fst (adam lr 1 (p, g, 0, 0)) = p - lr * (g / (\<bar>g\<bar> + 1 / 10 ^ 8))"
proof -
  have "sqrt (g * g / 1000) / sqrt (1 / 1000) = sqrt ((g * g / 1000) / (1 / 1000))"
    by (simp only: real_sqrt_divide)
  also have "\<dots> = sqrt (g * g)" by simp
  finally have k: "sqrt (g * g / 1000) / sqrt (1 / 1000) = \<bar>g\<bar>" by simp
  have alg: "lr / (1 / 10) * (g / 10 / D) = lr * (g / D)" for D :: real
    by simp
  have "fst (adam lr 1 (p, g, 0, 0))
          = p - lr / (1 / 10) * (g / 10 / (sqrt (g * g / 1000) / sqrt (1 / 1000) + 1 / 10 ^ 8))"
    unfolding adam_def Let_def prod.case fst_conv by simp
  also have "\<dots> = p - lr / (1 / 10) * (g / 10 / (\<bar>g\<bar> + 1 / 10 ^ 8))"
    unfolding k ..
  also have "\<dots> = p - lr * (g / (\<bar>g\<bar> + 1 / 10 ^ 8))"
    using alg [of "\<bar>g\<bar> + 1 / 10 ^ 8"] by (simp only:)
  finally show ?thesis .
qed

lemma example_train_step:
  "decoder_weight (fst (train_step (1 / 1000) 0 [[1 / 2]]
       (example_autoencoder, adam_init example_autoencoder)))
   = [[1 + 1 / 1000 * (1 / 8 / (1 / 8 + 1 / 10 ^ 8))]]"
proof -
  have g: "decoder_grad [[1 / 2]] [[1 / 4]] [[1 / 4]] = [[- (1 / 8)]]"
    by (simp add: decoder_grad_def Let_def numel_def dot_def)
  have a: "fst (adam (1 / 1000) 1 (1, - (1 / 8), 0, 0))
             = 1 + 1 / 1000 * (1 / 8 / (1 / 8 + 1 / 10 ^ 8))"
    unfolding adam_first_step by simp
  show ?thesis
    unfolding decoder_weight_train_step example_forward
    by (simp add: g adam_mat_def adam_vec_def adam_init_def example_autoencoder_def a
        del: One_nat_def)
qed

theorem forward_unit_norm_witness:
  "forward unnormalized_autoencoder [[1, 1]]
     = (unnormalized_autoencoder\<lparr>decoder_weight := [[3 / 5], [4 / 5]]\<rparr>,
        [[6 / 5, 8 / 5]], [[2]])
   \<and> l2_norm (transpose (decoder_weight (fst (forward unnormalized_autoencoder [[1, 1]]))) ! 0)
       = 1
   \<and> train_step (1 / 1000) 0 [[1, 1]]
         (unnormalized_autoencoder\<lparr>decoder_weight := [[3 / 5], [4 / 5]]\<rparr>,
          adam_init unnormalized_autoencoder)
       = train_step (1 / 1000) 0 [[1, 1]]
           (unnormalized_autoencoder, adam_init unnormalized_autoencoder)"
proof -
  let ?ae = unnormalized_autoencoder
  have ne: "decoder_weight ?ae \<noteq> []" by (simp add: unnormalized_autoencoder_def)
  have rect: "\<forall>row \<in> set (decoder_weight ?ae). length row = n_dict_components ?ae"
    by (simp add: unnormalized_autoencoder_def)
  have w: "decoder_weight ?ae = [[3], [4]]" and k: "n_dict_components ?ae = 1"
    by (simp_all add: unnormalized_autoencoder_def)
  have t: "transpose (decoder_weight ?ae) = [[3, 4]]" by (simp add: w transpose.simps)
  have range: "\<forall>j < n_dict_components ?ae.
                 1 / 10 ^ 12 \<le> l2_norm (transpose (decoder_weight ?ae) ! j)
                 \<and> l2_norm (transpose (decoder_weight ?ae) ! j) \<le> 10 ^ 18"
    unfolding t k by (simp add: l2_norm_3_4)
  have n: "normalize_dim0 [[3], [4]] = [[3 / 5], [4 / 5]]"
    by (simp add: normalize_dim0_def Let_def transpose.simps torch_l2_norm_def
        float32_overflow_def clamp_min_def div_norm_def l2_norm_3_4)
  have v: "forward ?ae [[1, 1]]
             = (?ae\<lparr>decoder_weight := [[3 / 5], [4 / 5]]\<rparr>, [[6 / 5, 8 / 5]], [[2]])"
    by (simp add: forward_def Let_def w n dot_def) (simp add: unnormalized_autoencoder_def dot_def)
  note th = forward_unit_norm [OF ne rect, of "[[1, 1]]" "1 / 1000" 0 "adam_init ?ae"]
  have u: "l2_norm (transpose (decoder_weight (fst (forward ?ae [[1, 1]]))) ! 0) = 1"
    using th range k by simp
  have s: "train_step (1 / 1000) 0 [[1, 1]]
               (?ae\<lparr>decoder_weight := [[3 / 5], [4 / 5]]\<rparr>, adam_init ?ae)
             = train_step (1 / 1000) 0 [[1, 1]] (?ae, adam_init ?ae)"
    using th range by (simp add: w n)
  show ?thesis using v u s by simp
qed

text \<open>
  Claim C1, as stated, fails after the first optimizer step already: with learning rate
  0.001, no L1 penalty and the batch \<open>[[1/2]]\<close>, the one dictionary element of the example
  module has norm 1 in the forward pass and norm at least 1.0009 after the optimizer step.
\<close>

theorem training_step_norm_counterexample:
  "decoder_weight (fst (training_loop (1 / 1000) 0 [[[1 / 2]]] example_autoencoder))
     = [[1 + 1 / 1000 * (1 / 8 / (1 / 8 + 1 / 10 ^ 8))]]
   \<and> 10009 / 10000
       \<le> l2_norm (transpose (decoder_weight
             (fst (training_loop (1 / 1000) 0 [[[1 / 2]]] example_autoencoder))) ! 0)"
proof -
  have w: "decoder_weight (fst (training_loop (1 / 1000) 0 [[[1 / 2]]] example_autoencoder))
             = [[1 + 1 / 1000 * (1 / 8 / (1 / 8 + 1 / 10 ^ 8))]]"
    unfolding training_loop_def using example_train_step by simp
  have n: "l2_norm [x] = \<bar>x\<bar>" for x by (simp add: l2_norm_def)
  show ?thesis
    unfolding w by (simp add: transpose.simps n)
qed

end
